theory Spec2Isabelle
  imports Main
begin

section \<open>Strings and regular expressions of the host language\<close>

text \<open>
  The module under study (\<^verbatim>\<open>src/lib/index.mjs\<close>) resolves module specifiers and rewrites
  the import specifiers of a source text.  Its text processing is done with regular
  expressions of the host language, so the embedding starts with a small backtracking
  matcher for the constructs the module's patterns use.

  (\<^verbatim>\<open>createCommonJS\<close>, which only wraps the host's \<^verbatim>\<open>require\<close>, is left out.)

  A string is a list of characters; a character stands for one code unit below 256.
  A position in a text is a zipper: the text before the position (reversed) and the
  text after it.  The matcher returns the positions a match can end at, in the order a
  backtracking engine tries them, so the head of the list is the match the engine reports.
  A look-behind is matched backwards from the position, as the host engine does.
\<close>

datatype regex =
    Chr char
  | Dot
  | Cls "char list"
  | NCls "char list"
  | Eps
  | Seq regex regex
  | Alt regex regex
  | Star regex
  | LookBehind regex
  | LookAhead regex

type_synonym pos = "string \<times> string"

definition LineTerminator :: "char list" where
  "LineTerminator = [CHR 0x0A, CHR 0x0D]"

definition WhiteSpace :: "char list" where
  "WhiteSpace = [CHR 0x09, CHR 0x0A, CHR 0x0B, CHR 0x0C, CHR 0x0D, CHR 0x20, CHR 0xA0]"

fun eat :: "(char \<Rightarrow> bool) \<Rightarrow> bool \<Rightarrow> pos \<Rightarrow> pos list" where
  "eat P True (b, c # a) = (if P c then [(c # b, a)] else [])"
| "eat P True (b, []) = []"
| "eat P False (c # b, a) = (if P c then [(b, c # a)] else [])"
| "eat P False ([], a) = []"

text \<open>
  A greedy repetition: one more round first (a round that does not move is rejected),
  then no more rounds.  The fuel is the text left in the direction of the match; every
  accepted round consumes a character of it.
\<close>

fun iter :: "(pos \<Rightarrow> pos list) \<Rightarrow> string \<Rightarrow> pos \<Rightarrow> pos list" where
  "iter m [] p = [p]"
| "iter m (x # fuel) p = concat (map (\<lambda>q. if q = p then [] else iter m fuel q) (m p)) @ [p]"

primrec rmatch :: "regex \<Rightarrow> bool \<Rightarrow> pos \<Rightarrow> pos list" where
  "rmatch (Chr c) fwd p = eat (\<lambda>x. x = c) fwd p"
| "rmatch Dot fwd p = eat (\<lambda>x. x \<notin> set LineTerminator) fwd p"
| "rmatch (Cls cs) fwd p = eat (\<lambda>x. x \<in> set cs) fwd p"
| "rmatch (NCls cs) fwd p = eat (\<lambda>x. x \<notin> set cs) fwd p"
| "rmatch Eps fwd p = [p]"
| "rmatch (Seq r1 r2) fwd p =
     (if fwd then concat (map (rmatch r2 fwd) (rmatch r1 fwd p))
      else concat (map (rmatch r1 fwd) (rmatch r2 fwd p)))"
| "rmatch (Alt r1 r2) fwd p = rmatch r1 fwd p @ rmatch r2 fwd p"
| "rmatch (Star r) fwd p = iter (rmatch r fwd) (if fwd then snd p else fst p) p"
| "rmatch (LookBehind r) fwd p = (if rmatch r False p = [] then [] else [p])"
| "rmatch (LookAhead r) fwd p = (if rmatch r True p = [] then [] else [p])"

definition Plus :: "regex \<Rightarrow> regex" where
  "Plus r = Seq r (Star r)"

fun lit :: "string \<Rightarrow> regex" where
  "lit [] = Eps"
| "lit (c # cs) = Seq (Chr c) (lit cs)"

text \<open>
  The search loop of a global pattern (\<^verbatim>\<open>matchAll\<close>, \<^verbatim>\<open>replace\<close> with the \<^verbatim>\<open>g\<close> flag):
  a match is attempted at every position from the left; after a match the search goes on
  at its end, or one character further when the match is empty.  The text is cut into the
  characters no match covers and the matches, each with the text before and after it.
\<close>

datatype piece = Keep char | Hit string string string

fun scan :: "regex \<Rightarrow> string \<Rightarrow> string \<Rightarrow> nat \<Rightarrow> piece list" where
  "scan re b [] skip =
     (if skip = 0 then (case rmatch re True (b, []) of [] \<Rightarrow> [] | q # qs \<Rightarrow> [Hit (rev b) [] []])
      else [])"
| "scan re b (c # a) (Suc k) = scan re (c # b) a k"
| "scan re b (c # a) 0 =
     (case rmatch re True (b, c # a) of
        [] \<Rightarrow> Keep c # scan re (c # b) a 0
      | q # qs \<Rightarrow>
          (let n = length (c # a) - length (snd q) in
           Hit (rev b) (take n (c # a)) (snd q) #
             (if n = 0 then Keep c # scan re (c # b) a 0 else scan re (c # b) a (n - 1))))"

fun hits :: "piece list \<Rightarrow> string list" where
  "hits [] = []"
| "hits (Keep c # ps) = hits ps"
| "hits (Hit b m a # ps) = m # hits ps"

definition matchAll :: "regex \<Rightarrow> string \<Rightarrow> string list" where
  "matchAll re s = hits (scan re [] s 0)"

definition test :: "regex \<Rightarrow> string \<Rightarrow> bool" where
  "test re s = (matchAll re s \<noteq> [])"

text \<open>
  \<^verbatim>\<open>s.replace(re, f)\<close> with a function: every match is replaced by the function's value
  at the matched text.
\<close>

fun replace_fn_pieces :: "(string \<Rightarrow> string) \<Rightarrow> piece list \<Rightarrow> string" where
  "replace_fn_pieces f [] = []"
| "replace_fn_pieces f (Keep c # ps) = c # replace_fn_pieces f ps"
| "replace_fn_pieces f (Hit b m a # ps) = f m @ replace_fn_pieces f ps"

definition replace_fn :: "regex \<Rightarrow> (string \<Rightarrow> string) \<Rightarrow> string \<Rightarrow> string" where
  "replace_fn re f s = replace_fn_pieces f (scan re [] s 0)"

text \<open>
  \<^verbatim>\<open>s.replace(re, str)\<close> with a string: the dollar patterns of the replacement text are
  expanded at every match.  The patterns of this module have no capture the replacement
  could refer to, so a dollar before a digit stands for itself.
\<close>

fun GetSubstitution :: "string \<Rightarrow> string \<Rightarrow> string \<Rightarrow> string \<Rightarrow> string" where
  "GetSubstitution m b a [] = []"
| "GetSubstitution m b a [c] = [c]"
| "GetSubstitution m b a (c # d # r) =
     (if c \<noteq> CHR 0x24 then c # GetSubstitution m b a (d # r)
      else if d = CHR 0x24 then CHR 0x24 # GetSubstitution m b a r
      else if d = CHR 0x26 then m @ GetSubstitution m b a r
      else if d = CHR 0x60 then b @ GetSubstitution m b a r
      else if d = CHR 0x27 then a @ GetSubstitution m b a r
      else c # GetSubstitution m b a (d # r))"

fun replace_str_pieces :: "string \<Rightarrow> piece list \<Rightarrow> string" where
  "replace_str_pieces r [] = []"
| "replace_str_pieces r (Keep c # ps) = c # replace_str_pieces r ps"
| "replace_str_pieces r (Hit b m a # ps) = GetSubstitution m b a r @ replace_str_pieces r ps"

definition replace_str :: "regex \<Rightarrow> string \<Rightarrow> string \<Rightarrow> string" where
  "replace_str re r s = replace_str_pieces r (scan re [] s 0)"

text \<open>
  \<^verbatim>\<open>new RegExp(pattern)\<close> for the pattern texts this development reads: literal characters,
  the dot, groups and alternation.  A pattern with another special character
  (backslash, anchors, quantifiers, brackets, braces) or with unbalanced parentheses is
  outside the fragment: the result is \<open>None\<close>, and nothing is claimed about it.
  The parser keeps the alternatives and the atoms of the group it is in, and a stack of
  the groups around it.
\<close>

type_synonym frame = "regex list \<times> regex list"

fun seq_of :: "regex list \<Rightarrow> regex" where
  "seq_of [] = Eps"
| "seq_of (r # rs) = Seq r (seq_of rs)"

fun alt_of :: "regex list \<Rightarrow> regex" where
  "alt_of [] = Eps"
| "alt_of [r] = r"
| "alt_of (r # rs) = Alt r (alt_of rs)"

definition close_frame :: "frame \<Rightarrow> regex" where
  "close_frame f = alt_of (fst f @ [seq_of (snd f)])"

definition unsupported_syntax :: "char list" where
  "unsupported_syntax =
     [CHR 0x5C, CHR ''^'', CHR ''$'', CHR ''*'', CHR ''+'', CHR ''?'', CHR ''['', CHR '']'',
      CHR ''{'', CHR ''}'']"

fun parse :: "string \<Rightarrow> frame \<Rightarrow> frame list \<Rightarrow> regex option" where
  "parse [] cur stack = (if stack = [] then Some (close_frame cur) else None)"
| "parse (c # cs) cur stack =
     (if c = CHR ''('' then parse cs ([], []) (cur # stack)
      else if c = CHR '')'' then
        (case stack of
           [] \<Rightarrow> None
         | up # st \<Rightarrow> parse cs (fst up, snd up @ [close_frame cur]) st)
      else if c = CHR ''|'' then parse cs (fst cur @ [seq_of (snd cur)], []) stack
      else if c = CHR ''.'' then parse cs (fst cur, snd cur @ [Dot]) stack
      else if c \<in> set unsupported_syntax then None
      else parse cs (fst cur, snd cur @ [Chr c]) stack)"

definition RegExp :: "string \<Rightarrow> regex option" where
  "RegExp pattern = parse pattern ([], []) []"

fun join :: "string \<Rightarrow> string list \<Rightarrow> string" where
  "join sep [] = []"
| "join sep [x] = x"
| "join sep (x # y # ys) = x @ sep @ join sep (y # ys)"

text \<open>
  \<^verbatim>\<open>Array.from(new Set(xs))\<close>: the distinct elements in the order of their first
  occurrence.
\<close>

fun uniq_acc :: "'a list \<Rightarrow> 'a list \<Rightarrow> 'a list" where
  "uniq_acc seen [] = []"
| "uniq_acc seen (x # xs) =
     (if x \<in> set seen then uniq_acc seen xs else x # uniq_acc (x # seen) xs)"

definition uniq :: "'a list \<Rightarrow> 'a list" where
  "uniq xs = uniq_acc [] xs"

definition startsWith :: "string \<Rightarrow> string \<Rightarrow> bool" where
  "startsWith s p = (take (length p) s = p)"

section \<open>Errors, options, the host\<close>

text \<open>
  An error object has a name, a message and, when the thrower set one, a code.  An error
  of the host can bring a \<^verbatim>\<open>toString\<close> of its own (the coded errors of the host's
  resolver do); \<open>own_toString\<close> is the text it gives, and \<open>None\<close> stands for an error that
  has the one of \<^verbatim>\<open>Error.prototype\<close>.
  The options object of a call has the four fields the module reads; a field that is
  absent is \<open>None\<close>.
\<close>

record error =
  err_name :: string
  err_message :: string
  err_code :: "string option"
  own_toString :: "string option"

record options =
  opt_from :: "string option"
  opt_url :: "string option"
  opt_conditions :: "string list option"
  opt_extensions :: "string list option"

definition no_options :: options where
  "no_options = \<lparr>opt_from = None, opt_url = None, opt_conditions = None, opt_extensions = None\<rparr>"

text \<open>
  What the module imports from the host is a parameter of the model: the resolver of
  \<^verbatim>\<open>import-meta-resolve\<close>, the list of builtin modules, the working directory, the
  file-system calls, the URL conversions of \<^verbatim>\<open>url\<close>, the base-64 encoder and the dynamic
  import.  A call that can throw returns a sum.  The calls that touch the file system or
  load code are recorded as events, in the order they are made.
\<close>

record 'x host =
  moduleResolve :: "string \<Rightarrow> string \<Rightarrow> string list \<Rightarrow> error + string"
  builtinModules :: "string list"
  cwd :: string
  realpathSync :: "string \<Rightarrow> error + string"
  url_fileURLToPath :: "string \<Rightarrow> error + string"
  pathToFileURL :: "string \<Rightarrow> string"
  readFile :: "string \<Rightarrow> error + string"
  base64 :: "string \<Rightarrow> string"
  dynamic_import :: "string \<Rightarrow> error + 'x"

datatype event =
    ModuleResolve string string "string list"
  | Realpath string
  | ReadFile string
  | Import string

type_synonym 'a io = "event list \<times> (error + 'a)"

definition ret :: "'a \<Rightarrow> 'a io" where
  "ret v = ([], Inr v)"

definition throw :: "error \<Rightarrow> 'a io" where
  "throw e = ([], Inl e)"

definition pure_io :: "error + 'a \<Rightarrow> 'a io" where
  "pure_io r = ([], r)"

fun bind_io :: "'a io \<Rightarrow> ('a \<Rightarrow> 'b io) \<Rightarrow> 'b io" where
  "bind_io (t, Inl e) f = (t, Inl e)"
| "bind_io (t, Inr v) f = (t @ fst (f v), snd (f v))"

section \<open>Utilities of the module\<close>

definition normalizeSlash :: "string \<Rightarrow> string" where
  "normalizeSlash str = map (\<lambda>c. if c = CHR 0x5C then CHR ''/'' else c) str"

text \<open>
  \<^verbatim>\<open>fileURLToPath\<close> is called with a string or with a URL object; only a string is tested
  for the \<^verbatim>\<open>file://\<close> prefix.
\<close>

datatype idval = Str string | Url string

fun fileURLToPath :: "'x host \<Rightarrow> idval \<Rightarrow> error + string" where
  "fileURLToPath H (Str id') =
     (if \<not> startsWith id' ''file://'' then Inr (normalizeSlash id')
      else map_sum (\<lambda>e. e) normalizeSlash (url_fileURLToPath H id'))"
| "fileURLToPath H (Url id') = map_sum (\<lambda>e. e) normalizeSlash (url_fileURLToPath H id')"

definition PROTOCOL_RE :: regex where
  "PROTOCOL_RE =
     seq_of [alt_of [lit ''node'', lit ''data'', lit ''http'', lit ''https''], Chr (CHR '':'')]"

definition PROTOCOL_OR_FILE_RE :: regex where
  "PROTOCOL_OR_FILE_RE =
     seq_of [alt_of [lit ''node'', lit ''data'', lit ''http'', lit ''https'', lit ''file''],
             Chr (CHR '':'')]"

definition normalizeid :: "'x host \<Rightarrow> string \<Rightarrow> string" where
  "normalizeid H id' =
     (if test PROTOCOL_OR_FILE_RE id' then id'
      else if id' \<in> set (builtinModules H) then ''node:'' @ id'
      else ''file://'' @ normalizeSlash id')"

text \<open>
  \<^verbatim>\<open>_perr\<close> builds a new error from the text of the caught one (the text the caught
  error gives for itself, \<open>toString\<close>) and keeps its code;
  \<^verbatim>\<open>_pcall\<close> turns a throw of the wrapped call into a rejection with that new error.
  A promise is modelled by its settled result.  (An identifier cannot start with an
  underscore here: \<open>u_\<close> stands for it.  The source's variable \<^verbatim>\<open>id\<close> is written
  \<open>id'\<close>, since \<open>id\<close> is the identity function.)
\<close>

definition toString :: "error \<Rightarrow> string" where
  "toString e =
     (case own_toString e of
        Some text \<Rightarrow> text
      | None \<Rightarrow>
          if err_name e = [] then err_message e
          else if err_message e = [] then err_name e
          else err_name e @ '': '' @ err_message e)"

definition u_perr :: "error \<Rightarrow> error" where
  "u_perr e =
     \<lparr>err_name = ''Error'', err_message = toString e, err_code = err_code e,
      own_toString = None\<rparr>"

fun u_pcall :: "'a io \<Rightarrow> 'a io" where
  "u_pcall (t, Inl e) = (t, Inl (u_perr e))"
| "u_pcall (t, Inr v) = (t, Inr v)"

section \<open>Resolve\<close>

definition DEFAULT_CONDITIONS_SET :: "string list" where
  "DEFAULT_CONDITIONS_SET = [''node'', ''import'']"

definition DEFAULT_FROM :: "'x host \<Rightarrow> string" where
  "DEFAULT_FROM H = pathToFileURL H (cwd H)"

definition DEFAULT_EXTENSIONS :: "string list" where
  "DEFAULT_EXTENSIONS = [''.mjs'', ''.cjs'', ''.js'', ''.json'']"

definition NOT_FOUND_ERRORS :: "string list" where
  "NOT_FOUND_ERRORS = [''ERR_MODULE_NOT_FOUND'', ''ERR_UNSUPPORTED_DIR_IMPORT'', ''MODULE_NOT_FOUND'']"

fun has_code :: "string list \<Rightarrow> string option \<Rightarrow> bool" where
  "has_code cs None = False"
| "has_code cs (Some c) = (c \<in> set cs)"

definition u_tryModuleResolve :: "'x host \<Rightarrow> string \<Rightarrow> string \<Rightarrow> string list \<Rightarrow> string option io" where
  "u_tryModuleResolve H id' from conditions =
     ([ModuleResolve id' from conditions],
      case moduleResolve H id' from conditions of
        Inr u \<Rightarrow> Inr (Some u)
      | Inl err \<Rightarrow> (if \<not> has_code NOT_FOUND_ERRORS (err_code err) then Inl err else Inr None))"

text \<open>The inner and the outer loop of \<^verbatim>\<open>_resolve\<close>; each stops at the first hit.\<close>

fun try_extensions ::
  "'x host \<Rightarrow> string \<Rightarrow> string \<Rightarrow> string list \<Rightarrow> string \<Rightarrow> string list \<Rightarrow> string option io" where
  "try_extensions H id' from conditions prefix [] = ret None"
| "try_extensions H id' from conditions prefix (ext # exts) =
     bind_io (u_tryModuleResolve H (id' @ prefix @ ext) from conditions)
       (\<lambda>resolved. case resolved of
          Some u \<Rightarrow> ret (Some u)
        | None \<Rightarrow> try_extensions H id' from conditions prefix exts)"

fun try_prefixes ::
  "'x host \<Rightarrow> string \<Rightarrow> string \<Rightarrow> string list \<Rightarrow> string list \<Rightarrow> string list \<Rightarrow> string option io" where
  "try_prefixes H id' from conditions [] exts = ret None"
| "try_prefixes H id' from conditions (prefix # prefixes) exts =
     bind_io (try_extensions H id' from conditions prefix exts)
       (\<lambda>resolved. case resolved of
          Some u \<Rightarrow> ret (Some u)
        | None \<Rightarrow> try_prefixes H id' from conditions prefixes exts)"

definition realpath :: "'x host \<Rightarrow> string \<Rightarrow> string io" where
  "realpath H p = ([Realpath p], realpathSync H p)"

text \<open>The last step of \<^verbatim>\<open>_resolve\<close>: the real path of the hit, as a file URL.\<close>

definition real_url :: "'x host \<Rightarrow> string \<Rightarrow> string io" where
  "real_url H resolved =
     bind_io (pure_io (fileURLToPath H (Url resolved)))
       (\<lambda>p. bind_io (realpath H p) (\<lambda>realPath. ret (pathToFileURL H realPath)))"

definition not_found :: "string \<Rightarrow> string \<Rightarrow> error" where
  "not_found id' from =
     \<lparr>err_name = ''Error'',
      err_message = ''Cannot find module '' @ id' @ '' imported from '' @ from,
      err_code = Some ''ERR_MODULE_NOT_FOUND'', own_toString = None\<rparr>"

definition conditions_of :: "options \<Rightarrow> string list" where
  "conditions_of opts =
     (case opt_conditions opts of Some cs \<Rightarrow> uniq cs | None \<Rightarrow> DEFAULT_CONDITIONS_SET)"

definition from_of :: "'x host \<Rightarrow> options \<Rightarrow> string" where
  "from_of H opts =
     (case opt_from opts of
        Some f \<Rightarrow> if f \<noteq> [] then normalizeid H f else DEFAULT_FROM H
      | None \<Rightarrow> DEFAULT_FROM H)"

definition extensions_of :: "options \<Rightarrow> string list" where
  "extensions_of opts =
     (case opt_extensions opts of Some es \<Rightarrow> es | None \<Rightarrow> DEFAULT_EXTENSIONS)"

definition u_resolve :: "'x host \<Rightarrow> string \<Rightarrow> options \<Rightarrow> string io" where
  "u_resolve H id' opts =
     (if test PROTOCOL_RE id' then ret id'
      else if id' \<in> set (builtinModules H) then ret (''node:'' @ id')
      else
        let conditionsSet = conditions_of opts;
            from = from_of H opts
        in bind_io (u_tryModuleResolve H id' from conditionsSet)
             (\<lambda>resolved.
                bind_io
                  (case resolved of
                     Some u \<Rightarrow> ret (Some u)
                   | None \<Rightarrow>
                       try_prefixes H id' from conditionsSet [[], ''/index''] (extensions_of opts))
                  (\<lambda>resolved. case resolved of
                     None \<Rightarrow> throw (not_found id' from)
                   | Some u \<Rightarrow> real_url H u)))"

definition resolveSync :: "'x host \<Rightarrow> string \<Rightarrow> options \<Rightarrow> string io" where
  "resolveSync H id' opts = u_resolve H id' opts"

definition resolve :: "'x host \<Rightarrow> string \<Rightarrow> options \<Rightarrow> string io" where
  "resolve H id' opts = u_pcall (resolveSync H id' opts)"

definition resolvePathSync :: "'x host \<Rightarrow> string \<Rightarrow> options \<Rightarrow> string io" where
  "resolvePathSync H id' opts =
     bind_io (resolveSync H id' opts) (\<lambda>u. pure_io (fileURLToPath H (Str u)))"

definition resolvePath :: "'x host \<Rightarrow> string \<Rightarrow> options \<Rightarrow> string io" where
  "resolvePath H id' opts = u_pcall (resolvePathSync H id' opts)"

definition createResolve :: "'x host \<Rightarrow> options \<Rightarrow> string \<Rightarrow> string option \<Rightarrow> string io" where
  "createResolve H defaults id' from =
     resolve H id'
       (defaults\<lparr>opt_from :=
          (case from of
             Some f \<Rightarrow> if f \<noteq> [] then Some f else opt_from defaults
           | None \<Rightarrow> opt_from defaults)\<rparr>)"

section \<open>Evaluate\<close>

definition quotes :: "char list" where
  "quotes = [CHR 0x27, CHR 0x22]"

text \<open>
  The four alternatives of \<^verbatim>\<open>ESM_IMPORT_RE\<close>, each a look-behind, the specifier
  \<^verbatim>\<open>[^'"]+\<close> and a look-ahead.
\<close>

definition ESM_IMPORT_RE :: regex where
  "ESM_IMPORT_RE = alt_of
     [seq_of [LookBehind (seq_of [lit ''import '', Star Dot, lit '' from '', Cls quotes]),
              Plus (NCls quotes), LookAhead (Cls quotes)],
      seq_of [LookBehind (seq_of [lit ''export '', Star Dot, lit '' from '', Cls quotes]),
              Plus (NCls quotes), LookAhead (Cls quotes)],
      seq_of [LookBehind (seq_of [lit ''import'', Star (Cls WhiteSpace), Cls quotes]),
              Plus (NCls quotes), LookAhead (Cls quotes)],
      seq_of [LookBehind (seq_of [lit ''import'', Star (Cls WhiteSpace), Chr (CHR ''(''), Cls quotes]),
              Plus (NCls quotes), LookAhead (seq_of [Cls quotes, Chr (CHR '')'')])]]"

definition IMPORT_META_URL_RE :: regex where
  "IMPORT_META_URL_RE = lit ''import.meta.url''"

text \<open>
  \<^verbatim>\<open>Promise.all\<close> over calls that have all been started: every call runs, and the
  result is the first failure in the order of the list, or all the values.  (Each
  \<^verbatim>\<open>resolve\<close> runs to its end when it is called, so the calls run one after the other.)
\<close>

fun Promise_all :: "'a io list \<Rightarrow> 'a list io" where
  "Promise_all [] = ret []"
| "Promise_all (p # ps) =
     (fst p @ fst (Promise_all ps),
      case snd p of
        Inl e \<Rightarrow> Inl e
      | Inr v \<Rightarrow> (case snd (Promise_all ps) of Inl e \<Rightarrow> Inl e | Inr vs \<Rightarrow> Inr (v # vs)))"

definition uniqueImports :: "string \<Rightarrow> string list" where
  "uniqueImports code = uniq (matchAll ESM_IMPORT_RE code)"

definition resolveOpts :: "options \<Rightarrow> options" where
  "resolveOpts opts = opts\<lparr>opt_from := opt_url opts\<rparr>"

definition lookup_resolved :: "(string \<times> string) list \<Rightarrow> string \<Rightarrow> string" where
  "lookup_resolved resolved id' =
     (case map_of resolved id' of Some u \<Rightarrow> u | None \<Rightarrow> ''undefined'')"

text \<open>
  \<^verbatim>\<open>resolveImports\<close>.  The result is \<open>None\<close> when the pattern built from the specifiers
  is outside the fragment \<open>RegExp\<close> reads; a failed resolution is reported before the
  pattern is built.
\<close>

definition resolveImports ::
  "'x host \<Rightarrow> string \<Rightarrow> options \<Rightarrow> event list \<times> (error + string) option" where
  "resolveImports H code opts =
     (if matchAll ESM_IMPORT_RE code = [] then ([], Some (Inr code))
      else
        let all = Promise_all
              (map (\<lambda>id'. bind_io (resolve H id' (resolveOpts opts)) (\<lambda>u. ret (id', u)))
                 (uniqueImports code))
        in (fst all,
            case snd all of
              Inl e \<Rightarrow> Some (Inl e)
            | Inr resolved \<Rightarrow>
                (case RegExp (join ''|'' (map (\<lambda>i. ''('' @ i @ '')'') (uniqueImports code))) of
                   None \<Rightarrow> None
                 | Some re \<Rightarrow> Some (Inr (replace_fn re (lookup_resolved resolved) code)))))"

text \<open>
  The options objects live in a store, and a caller passes a reference: \<^verbatim>\<open>transformModule\<close>
  assigns to the fields of the object it is given.
\<close>

type_synonym store = "options list"

fun truthy :: "string option \<Rightarrow> bool" where
  "truthy None = False"
| "truthy (Some v) = (v \<noteq> [])"

definition url_from_defaults :: "options \<Rightarrow> options" where
  "url_from_defaults opts =
     (if \<not> truthy (opt_url opts) \<and> truthy (opt_from opts) then opts\<lparr>opt_url := opt_from opts\<rparr>
      else if truthy (opt_url opts) \<and> \<not> truthy (opt_from opts) then opts\<lparr>opt_from := opt_url opts\<rparr>
      else opts)"

definition rewrite_meta_url :: "options \<Rightarrow> string \<Rightarrow> string" where
  "rewrite_meta_url opts code =
     (case opt_url opts of
        None \<Rightarrow> code
      | Some u \<Rightarrow>
          if u \<noteq> [] then replace_str IMPORT_META_URL_RE ([CHR 0x27] @ u @ [CHR 0x27]) code
          else code)"

definition transformModule ::
  "'x host \<Rightarrow> string \<Rightarrow> nat \<Rightarrow> store \<Rightarrow> store \<times> event list \<times> (error + string) option" where
  "transformModule H code r s =
     (let opts = url_from_defaults (s ! r);
          s' = s[r := opts];
          res = resolveImports H code opts
      in (s', fst res, map_option (map_sum (\<lambda>e. e) (rewrite_meta_url opts)) (snd res)))"

definition toDataURL :: "'x host \<Rightarrow> string \<Rightarrow> string" where
  "toDataURL H code = ''data:text/javascript;base64,'' @ base64 H code"

definition evalModule ::
  "'x host \<Rightarrow> string \<Rightarrow> nat \<Rightarrow> store \<Rightarrow> store \<times> event list \<times> (error + 'x) option" where
  "evalModule H code r s =
     (case transformModule H code r s of
        (s', t, None) \<Rightarrow> (s', t, None)
      | (s', t, Some (Inl e)) \<Rightarrow> (s', t, Some (Inl e))
      | (s', t, Some (Inr transformed)) \<Rightarrow>
          (s', t @ [Import (toDataURL H transformed)],
           Some (dynamic_import H (toDataURL H transformed))))"

definition readModule :: "'x host \<Rightarrow> string \<Rightarrow> options \<Rightarrow> (string \<times> string) io" where
  "readModule H id' opts =
     bind_io (resolve H id' opts)
       (\<lambda>url. bind_io (pure_io (fileURLToPath H (Str url)))
          (\<lambda>p. bind_io ([ReadFile p], readFile H p) (\<lambda>code. ret (url, code))))"

text \<open>
  \<^verbatim>\<open>loadModule\<close> passes a new object to \<^verbatim>\<open>evalModule\<close>: the fields of the caller's
  object, with \<^verbatim>\<open>url\<close> set to the resolved URL when the caller gave none.
\<close>

definition loadModule ::
  "'x host \<Rightarrow> string \<Rightarrow> nat \<Rightarrow> store \<Rightarrow> store \<times> event list \<times> (error + 'x) option" where
  "loadModule H id' r s =
     (case readModule H id' (s ! r) of
        (t, Inl e) \<Rightarrow> (s, t, Some (Inl e))
      | (t, Inr (url, code)) \<Rightarrow>
          (let fresh = (s ! r)\<lparr>opt_url :=
                 (case opt_url (s ! r) of Some u \<Rightarrow> Some u | None \<Rightarrow> Some url)\<rparr>;
               res = evalModule H code (length s) (s @ [fresh])
           in (fst res, t @ fst (snd res), snd (snd res))))"

text \<open>
  \<^verbatim>\<open>resolveSync\<close>, \<^verbatim>\<open>resolve\<close> and \<^verbatim>\<open>resolvePath\<close> as a caller who holds a reference to its
  options object sees them.  Their code (lines 45 to 102) reads the fields of the object
  and assigns to none, so they are given the object's value, and the store after the call
  is the store before it.
\<close>

definition resolveSync_ref :: "'x host \<Rightarrow> string \<Rightarrow> nat \<Rightarrow> store \<Rightarrow> store \<times> string io" where
  "resolveSync_ref H id' r s = (s, resolveSync H id' (s ! r))"

definition resolve_ref :: "'x host \<Rightarrow> string \<Rightarrow> nat \<Rightarrow> store \<Rightarrow> store \<times> string io" where
  "resolve_ref H id' r s = (s, resolve H id' (s ! r))"

definition resolvePath_ref :: "'x host \<Rightarrow> string \<Rightarrow> nat \<Rightarrow> store \<Rightarrow> store \<times> string io" where
  "resolvePath_ref H id' r s = (s, resolvePath H id' (s ! r))"

section \<open>The words of the specification\<close>

text \<open>
  Definitions that follow the specification rather than the code, to compare the code
  with.  The candidates of the fallback: every combination of no suffix or the suffix
  \<^verbatim>\<open>/index\<close> with each extension, the suffix in the outer loop.
\<close>

definition candidates :: "string \<Rightarrow> string list \<Rightarrow> string list" where
  "candidates id' exts =
     concat (map (\<lambda>prefix. map (\<lambda>ext. id' @ prefix @ ext) exts) [[], ''/index''])"

text \<open>
  A soft miss: the host's resolver failed with one of the codes the module treats as
  "not found".
\<close>

definition soft_miss :: "'x host \<Rightarrow> string \<Rightarrow> string \<Rightarrow> string list \<Rightarrow> bool" where
  "soft_miss H id' from conditions =
     (case moduleResolve H id' from conditions of
        Inl e \<Rightarrow> has_code NOT_FOUND_ERRORS (err_code e)
      | Inr u \<Rightarrow> False)"

text \<open>
  The rewrite the specification describes as the intent: every specifier found by the
  extraction is replaced, where it was found, by its own resolved URL.
\<close>

definition rewrite_whole_specifiers :: "(string \<times> string) list \<Rightarrow> string \<Rightarrow> string" where
  "rewrite_whole_specifiers resolved code = replace_fn ESM_IMPORT_RE (lookup_resolved resolved) code"

section \<open>Auxiliary definitions\<close>

text \<open>
  Trying a list of specifiers one after the other, up to the first hit or throw.
\<close>

fun first_hit :: "'x host \<Rightarrow> string \<Rightarrow> string list \<Rightarrow> string list \<Rightarrow> string option io" where
  "first_hit H from conditions [] = ret None"
| "first_hit H from conditions (c # cs) =
     bind_io (u_tryModuleResolve H c from conditions)
       (\<lambda>resolved. case resolved of
          Some u \<Rightarrow> ret (Some u)
        | None \<Rightarrow> first_hit H from conditions cs)"

text \<open>
  The resolution origins of the host resolver's calls in a trace.
\<close>

fun bases :: "event list \<Rightarrow> string list" where
  "bases [] = []"
| "bases (ModuleResolve x b cs # es) = b # bases es"
| "bases (e # es) = bases es"

section \<open>Hosts and inputs of the examples\<close>

definition host_not_found :: error where
  "host_not_found =
     \<lparr>err_name = ''Error'', err_message = ''Cannot find module'',
      err_code = Some ''ERR_MODULE_NOT_FOUND'',
      own_toString = Some ''Error [ERR_MODULE_NOT_FOUND]: Cannot find module''\<rparr>"

definition invalid_url_scheme :: error where
  "invalid_url_scheme =
     \<lparr>err_name = ''TypeError'', err_message = ''The URL must be of scheme file'',
      err_code = Some ''ERR_INVALID_URL_SCHEME'',
      own_toString = Some ''TypeError [ERR_INVALID_URL_SCHEME]: The URL must be of scheme file''\<rparr>"

definition enoent :: error where
  "enoent =
     \<lparr>err_name = ''Error'', err_message = ''ENOENT: no such file or directory'',
      err_code = Some ''ENOENT'', own_toString = None\<rparr>"

text \<open>
  A host over a table of failures and a table of modules (both keyed by base and
  specifier), a table of symbolic links, a table of files and a list of builtin names.
  A specifier in neither of the first two tables is not found.
\<close>

definition fs_host ::
  "((string \<times> string) \<times> error) list \<Rightarrow> ((string \<times> string) \<times> string) list \<Rightarrow>
   (string \<times> string) list \<Rightarrow> (string \<times> string) list \<Rightarrow> string list \<Rightarrow> unit host" where
  "fs_host failures modules links files builtins =
     \<lparr>moduleResolve = (\<lambda>id' from conditions.
        case map_of failures (from, id') of
          Some e \<Rightarrow> Inl e
        | None \<Rightarrow> (case map_of modules (from, id') of Some u \<Rightarrow> Inr u | None \<Rightarrow> Inl host_not_found)),
      builtinModules = builtins,
      cwd = ''/work'',
      realpathSync = (\<lambda>p. case map_of links p of Some q \<Rightarrow> Inr q | None \<Rightarrow> Inr p),
      url_fileURLToPath = (\<lambda>u. if startsWith u ''file://'' then Inr (drop 7 u) else Inl invalid_url_scheme),
      pathToFileURL = (\<lambda>p. ''file://'' @ p),
      readFile = (\<lambda>p. case map_of files p of Some c \<Rightarrow> Inr c | None \<Rightarrow> Inl enoent),
      base64 = (\<lambda>c. c),
      dynamic_import = (\<lambda>u. Inr ())\<rparr>"

definition empty_host :: "unit host" where
  "empty_host = fs_host [] [] [] [] []"

definition link_host :: "unit host" where
  "link_host =
     fs_host [] [((''file:///work'', ''file:///app/link.mjs''), ''file:///app/link.mjs'')]
       [(''/app/link.mjs'', ''/app/real.mjs'')] [] []"

definition prefixed_builtin_host :: "unit host" where
  "prefixed_builtin_host = fs_host [] [] [] [] [''fs'', ''node:test'']"

definition index_host :: "unit host" where
  "index_host =
     fs_host [] [((''file:///work'', ''./a/index.js''), ''file:///work/a/index.js''),
                 ((''file:///work'', ''./a/index.json''), ''file:///work/a/index.json'')] [] [] []"

definition ts_host :: "unit host" where
  "ts_host =
     fs_host [] [((''file:///work'', ''./a.js''), ''file:///work/a.js''),
                 ((''file:///work'', ''./a/index.ts''), ''file:///work/a/index.ts'')] [] [] []"

definition export_error :: error where
  "export_error =
     \<lparr>err_name = ''Error'', err_message = ''Package subpath is not exported'',
      err_code = Some ''ERR_PACKAGE_PATH_NOT_EXPORTED'',
      own_toString =
        Some ''Error [ERR_PACKAGE_PATH_NOT_EXPORTED]: Package subpath is not exported''\<rparr>"

definition failing_host :: "unit host" where
  "failing_host = fs_host [((''file:///work'', ''./pkg.mjs''), export_error)] [] [] [] []"

definition ab_host :: "unit host" where
  "ab_host =
     fs_host []
       [((''file:///work/main.mjs'', ''./a''), ''file:///work/a.mjs''),
        ((''file:///work/main.mjs'', ''./a/b''), ''file:///work/a/b.mjs'')] [] [] []"

definition gone_host :: "unit host" where
  "gone_host = fs_host [] [((''file:///work/main.mjs'', ''./a''), ''file:///work/a.mjs'')] [] [] []"

definition parent_host :: "unit host" where
  "parent_host =
     fs_host [] [((''file:///work/src/main.mjs'', ''..''), ''file:///work/index.mjs'')] [] [] []"

text \<open>
  Options objects.
\<close>

definition ts_options :: options where
  "ts_options = no_options\<lparr>opt_extensions := Some [''.ts'', ''.js'']\<rparr>"

definition from_main :: options where
  "from_main = no_options\<lparr>opt_from := Some ''/srv/app/main.mjs''\<rparr>"

definition url_main :: options where
  "url_main = no_options\<lparr>opt_url := Some ''file:///work/main.mjs''\<rparr>"

definition main_both :: options where
  "main_both = url_main\<lparr>opt_from := Some ''file:///work/main.mjs''\<rparr>"

definition url_src_main :: options where
  "url_src_main = no_options\<lparr>opt_url := Some ''file:///work/src/main.mjs''\<rparr>"

definition from_only :: options where
  "from_only = no_options\<lparr>opt_from := Some ''file:///work/main.mjs''\<rparr>"

definition both_given :: options where
  "both_given =
     no_options\<lparr>opt_from := Some ''file:///elsewhere/x.mjs'', opt_url := Some ''file:///work/main.mjs''\<rparr>"

text \<open>
  Source texts.
\<close>

definition nl :: string where "nl = [CHR 0x0A]"

definition squote :: "string \<Rightarrow> string" where
  "squote s = [CHR 0x27] @ s @ [CHR 0x27]"

definition dquote :: "string \<Rightarrow> string" where
  "dquote s = [CHR 0x22] @ s @ [CHR 0x22]"

definition code_ab :: string where
  "code_ab = ''import a from '' @ squote ''./a'' @ nl @ ''import b from '' @ squote ''./a/b''"

definition code_dup :: string where
  "code_dup = ''import a from '' @ squote ''..'' @ nl @ ''import b from '' @ squote ''..''"

definition code_plain :: string where
  "code_plain = ''export const x = 1''"

definition code_shapes :: string where
  "code_shapes =
     ''import a from '' @ squote ''./a'' @ nl @
     ''export * from '' @ dquote ''./b'' @ nl @
     ''import '' @ squote ''./c'' @ nl @
     ''const d = import('' @ squote ''./d'' @ '')''"

text \<open>
  A host with one module, \<^verbatim>\<open>./m\<close> in the working directory, and its text.
\<close>

definition load_host :: "unit host" where
  "load_host =
     fs_host [] [((''file:///work'', ''./m''), ''file:///work/m.mjs'')] []
       [(''/work/m.mjs'', code_plain)] []"

section \<open>Evaluation rules and basic lemmas\<close>

lemmas regex_eval = test_def matchAll_def PROTOCOL_RE_def PROTOCOL_OR_FILE_RE_def
  LineTerminator_def WhiteSpace_def Plus_def quotes_def

lemmas host_eval = fs_host_def host_not_found_def invalid_url_scheme_def enoent_def
  startsWith_def no_options_def

lemmas resolve_eval = resolveSync_def resolve_def u_resolve_def conditions_of_def from_of_def
  extensions_of_def DEFAULT_FROM_def DEFAULT_EXTENSIONS_def DEFAULT_CONDITIONS_SET_def
  u_tryModuleResolve_def NOT_FOUND_ERRORS_def not_found_def throw_def ret_def pure_io_def
  real_url_def realpath_def normalizeSlash_def u_perr_def toString_def normalizeid_def Let_def

lemmas transform_eval = resolveImports_def uniqueImports_def uniq_def ESM_IMPORT_RE_def
  IMPORT_META_URL_RE_def RegExp_def close_frame_def unsupported_syntax_def replace_fn_def
  replace_str_def lookup_resolved_def resolveOpts_def transformModule_def url_from_defaults_def
  rewrite_meta_url_def nl_def squote_def

lemma bind_io_ret [simp]: "bind_io (ret v) f = f v"
  by (simp add: ret_def)

lemma bind_io_throw [simp]: "bind_io (throw e) f = throw e"
  by (simp add: throw_def)

lemma bind_io_assoc: "bind_io (bind_io m f) g = bind_io m (\<lambda>x. bind_io (f x) g)"
proof (cases m)
  case (Pair t r)
  show ?thesis
  proof (cases r)
    case (Inl e)
    with Pair show ?thesis by simp
  next
    case (Inr v)
    obtain t1 r1 where f: "f v = (t1, r1)" by (cases "f v")
    show ?thesis
      using Pair Inr f by (cases r1) simp_all
  qed
qed

lemma bind_io_option_case:
  "bind_io (case r of Some u \<Rightarrow> ret (Some u) | None \<Rightarrow> n) g =
     (case r of Some u \<Rightarrow> g (Some u) | None \<Rightarrow> bind_io n g)"
  by (cases r) simp_all

lemma fst_bind_io:
  "fst (bind_io m f) = fst m @ (case snd m of Inl e \<Rightarrow> [] | Inr v \<Rightarrow> fst (f v))"
  by (cases m; cases "snd m") auto

lemma snd_bind_io:
  "snd (bind_io m f) = (case snd m of Inl e \<Rightarrow> Inl e | Inr v \<Rightarrow> snd (f v))"
  by (cases m; cases "snd m") auto

lemma fst_u_pcall [simp]: "fst (u_pcall m) = fst m"
  by (cases m; cases "snd m") auto

text \<open>
  The extraction pattern on the four shapes of an import, and the pattern reader on a
  pattern inside and a pattern outside its fragment.
\<close>

lemma ESM_IMPORT_RE_shapes:
  "matchAll ESM_IMPORT_RE code_shapes = [''./a'', ''./b'', ''./c'', ''./d'']"
  by (simp add: code_shapes_def dquote_def squote_def nl_def ESM_IMPORT_RE_def regex_eval)

lemma RegExp_two_dots: "RegExp ''(..)'' = Some (Seq (Seq Dot (Seq Dot Eps)) Eps)"
  by (simp add: RegExp_def close_frame_def unsupported_syntax_def)

lemma RegExp_quantifier_unsupported: "RegExp ''(a+b)'' = None"
  by (simp add: RegExp_def close_frame_def unsupported_syntax_def)

lemma startsWith_Cons: "startsWith s (c # p) \<longleftrightarrow> (\<exists>t. s = c # t \<and> startsWith t p)"
  by (cases s) (auto simp: startsWith_def)

text \<open>
  A specifier that starts with one of the four protocols is found by the pattern of \<^verbatim>\<open>_resolve\<close>.
\<close>

lemma scheme_prefix_has_protocol:
  assumes "startsWith s ''node:'' \<or> startsWith s ''data:'' \<or> startsWith s ''http:'' \<or>
    startsWith s ''https:''"
  shows "test PROTOCOL_RE s"
  using assms
  by (auto simp: startsWith_Cons regex_eval)

section \<open>The attempts of the resolver\<close>

text \<open>
  The two loops of \<^verbatim>\<open>_resolve\<close> try the candidates in the order of the list, and
  \<^verbatim>\<open>_resolve\<close> is the literal attempt followed by the candidates.
\<close>

lemma first_hit_append:
  "first_hit H from conditions (xs @ ys) =
     bind_io (first_hit H from conditions xs)
       (\<lambda>resolved. case resolved of
          Some u \<Rightarrow> ret (Some u)
        | None \<Rightarrow> first_hit H from conditions ys)"
proof (induction xs)
  case Nil
  show ?case by simp
next
  case (Cons x xs)
  show ?case
    by (simp add: Cons.IH bind_io_assoc bind_io_option_case cong: option.case_cong)
qed

lemma try_extensions_first_hit:
  "try_extensions H id' from conditions prefix exts =
     first_hit H from conditions (map (\<lambda>ext. id' @ prefix @ ext) exts)"
  by (induction exts) simp_all

lemma try_prefixes_first_hit:
  "try_prefixes H id' from conditions prefixes exts =
     first_hit H from conditions
       (concat (map (\<lambda>prefix. map (\<lambda>ext. id' @ prefix @ ext) exts) prefixes))"
  by (induction prefixes) (simp_all add: first_hit_append try_extensions_first_hit)

lemma u_resolve_first_hit:
  assumes "\<not> test PROTOCOL_RE id'" and "id' \<notin> set (builtinModules H)"
  shows "u_resolve H id' opts =
     bind_io (first_hit H (from_of H opts) (conditions_of opts)
                (id' # candidates id' (extensions_of opts)))
       (\<lambda>resolved. case resolved of
          None \<Rightarrow> throw (not_found id' (from_of H opts))
        | Some u \<Rightarrow> real_url H u)"
  using assms
  by (simp add: u_resolve_def candidates_def try_prefixes_first_hit bind_io_assoc
      bind_io_option_case Let_def cong: option.case_cong)

lemma tryModuleResolve_soft:
  "soft_miss H c from conditions \<Longrightarrow>
   u_tryModuleResolve H c from conditions = ([ModuleResolve c from conditions], Inr None)"
  by (auto simp: soft_miss_def u_tryModuleResolve_def split: sum.splits)

lemma tryModuleResolve_hit:
  "moduleResolve H c from conditions = Inr u \<Longrightarrow>
   u_tryModuleResolve H c from conditions = ([ModuleResolve c from conditions], Inr (Some u))"
  by (simp add: u_tryModuleResolve_def)

lemma tryModuleResolve_hard:
  "moduleResolve H c from conditions = Inl e \<Longrightarrow> \<not> has_code NOT_FOUND_ERRORS (err_code e) \<Longrightarrow>
   u_tryModuleResolve H c from conditions = ([ModuleResolve c from conditions], Inl e)"
  by (simp add: u_tryModuleResolve_def)

lemma first_hit_all_soft:
  "\<forall>x \<in> set cs. soft_miss H x from conditions \<Longrightarrow>
   first_hit H from conditions cs = (map (\<lambda>x. ModuleResolve x from conditions) cs, Inr None)"
proof (induction cs)
  case Nil
  show ?case by (simp add: ret_def)
next
  case (Cons c cs)
  then show ?case by (simp add: tryModuleResolve_soft)
qed

lemma first_hit_hit:
  assumes "\<forall>x \<in> set pre. soft_miss H x from conditions"
    and "moduleResolve H c from conditions = Inr u"
  shows "first_hit H from conditions (pre @ c # post) =
     (map (\<lambda>x. ModuleResolve x from conditions) (pre @ [c]), Inr (Some u))"
  using assms
  by (simp add: first_hit_append first_hit_all_soft tryModuleResolve_hit ret_def)

lemma first_hit_hard:
  assumes "\<forall>x \<in> set pre. soft_miss H x from conditions"
    and "moduleResolve H c from conditions = Inl e"
    and "\<not> has_code NOT_FOUND_ERRORS (err_code e)"
  shows "first_hit H from conditions (pre @ c # post) =
     (map (\<lambda>x. ModuleResolve x from conditions) (pre @ [c]), Inl e)"
  using assms
  by (simp add: first_hit_append first_hit_all_soft tryModuleResolve_hard)

lemma bases_append [simp]: "bases (xs @ ys) = bases xs @ bases ys"
  by (induction xs rule: bases.induct) simp_all

lemma bases_first_hit: "set (bases (fst (first_hit H from conditions cs))) \<subseteq> {from}"
proof (induction cs)
  case Nil
  show ?case by (simp add: ret_def)
next
  case (Cons c cs)
  then show ?case
    by (auto simp: fst_bind_io u_tryModuleResolve_def ret_def split: sum.splits option.splits)
qed

lemma bases_real_url: "bases (fst (real_url H u)) = []"
  by (simp add: real_url_def realpath_def pure_io_def ret_def fst_bind_io split: sum.splits)

lemma bases_u_resolve: "set (bases (fst (u_resolve H id' opts))) \<subseteq> {from_of H opts}"
proof (cases "test PROTOCOL_RE id' \<or> id' \<in> set (builtinModules H)")
  case True
  then show ?thesis by (auto simp: u_resolve_def ret_def)
next
  case False
  then have "u_resolve H id' opts =
     bind_io (first_hit H (from_of H opts) (conditions_of opts)
                (id' # candidates id' (extensions_of opts)))
       (\<lambda>resolved. case resolved of
          None \<Rightarrow> throw (not_found id' (from_of H opts))
        | Some u \<Rightarrow> real_url H u)"
    by (simp add: u_resolve_first_hit)
  then show ?thesis
    using bases_first_hit [of H "from_of H opts" "conditions_of opts"
        "id' # candidates id' (extensions_of opts)"]
    by (auto simp: fst_bind_io bases_real_url throw_def split: sum.splits option.splits)
qed

section \<open>The steps of the rewriter\<close>

lemma Promise_all_first_failure:
  assumes "\<forall>x \<in> set pre. \<not> isl (snd (f x))" and "snd (f y) = Inl e"
  shows "snd (Promise_all (map f (pre @ y # post))) = Inl e"
  using assms
proof (induction pre)
  case Nil
  then show ?case by simp
next
  case (Cons z pre)
  then obtain v where "snd (f z) = Inr v"
    by (cases "snd (f z)") auto
  with Cons show ?case by simp
qed

lemma fst_Promise_all: "fst (Promise_all ps) = concat (map fst ps)"
  by (induction ps) (simp_all add: ret_def)

text \<open>
  The distinct imports: no specifier twice, and the same specifiers as the extraction found.
\<close>

lemma uniq_acc_subset: "set (uniq_acc seen xs) \<subseteq> set xs"
  by (induction xs arbitrary: seen) auto

lemma uniq_acc_distinct:
  "distinct (uniq_acc seen xs) \<and> set (uniq_acc seen xs) \<inter> set seen = {}"
proof (induction xs arbitrary: seen)
  case Nil
  show ?case by simp
next
  case (Cons x xs)
  from Cons [of seen] Cons [of "x # seen"] show ?case by auto
qed

lemma uniq_acc_set: "set (uniq_acc seen xs) = set xs - set seen"
  by (induction xs arbitrary: seen) auto

lemma uniqueImports_distinct: "distinct (uniqueImports code)"
  by (simp add: uniqueImports_def uniq_def uniq_acc_distinct)

lemma uniqueImports_set: "set (uniqueImports code) = set (matchAll ESM_IMPORT_RE code)"
  by (simp add: uniqueImports_def uniq_def uniq_acc_set)

lemma uniqueImports_nonempty:
  "x \<in> set (uniqueImports code) \<Longrightarrow> matchAll ESM_IMPORT_RE code \<noteq> []"
  using uniq_acc_subset [of "[]" "matchAll ESM_IMPORT_RE code"]
  by (auto simp: uniqueImports_def uniq_def)

text \<open>
  \<^verbatim>\<open>resolveImports\<close> calls \<^verbatim>\<open>resolve\<close> once for each distinct import, in their order, and
  every call of the host's resolver has the base taken from \<^verbatim>\<open>url\<close>.
\<close>

lemma resolveImports_calls:
  assumes "matchAll ESM_IMPORT_RE code \<noteq> []"
  shows "fst (resolveImports H code opts) =
    concat (map (\<lambda>id'. fst (resolve H id' (resolveOpts opts))) (uniqueImports code))"
proof -
  have "fst (bind_io (resolve H x (resolveOpts opts)) (\<lambda>u. ret (x, u))) =
      fst (resolve H x (resolveOpts opts))" for x
    by (simp add: fst_bind_io ret_def split: sum.splits)
  then show ?thesis
    using assms by (simp add: resolveImports_def Let_def fst_Promise_all comp_def)
qed

lemma bases_resolveImports:
  "set (bases (fst (resolveImports H code opts))) \<subseteq> {from_of H (resolveOpts opts)}"
proof -
  have "set (bases (concat (map (\<lambda>id'. fst (bind_io (resolve H id' (resolveOpts opts))
      (\<lambda>u. ret (id', u)))) xs))) \<subseteq> {from_of H (resolveOpts opts)}" for xs
  proof (induction xs)
    case Nil
    show ?case by simp
  next
    case (Cons x xs)
    have "set (bases (fst (bind_io (resolve H x (resolveOpts opts)) (\<lambda>u. ret (x, u)))))
        \<subseteq> {from_of H (resolveOpts opts)}"
      using bases_u_resolve [of H x "resolveOpts opts"]
      by (auto simp: fst_bind_io resolve_def resolveSync_def ret_def split: sum.splits)
    with Cons show ?case by simp
  qed
  then show ?thesis
    by (simp add: resolveImports_def Let_def fst_Promise_all comp_def)
qed

lemma resolveImports_resolveOpts:
  "resolveOpts opts = resolveOpts opts' \<Longrightarrow> resolveImports H code opts = resolveImports H code opts'"
  by (simp add: resolveImports_def)

lemma fst_evalModule: "fst (evalModule H code r s) = fst (transformModule H code r s)"
  by (cases "transformModule H code r s")
    (auto simp: evalModule_def split: option.splits sum.splits)

section \<open>Properties of the resolver\<close>

text \<open>
  Claim C1, as amended.  The protocols \<^verbatim>\<open>_resolve\<close> recognizes are \<^verbatim>\<open>node:\<close>, \<^verbatim>\<open>data:\<close>,
  \<^verbatim>\<open>http:\<close> and \<^verbatim>\<open>https:\<close>.  A specifier in which its pattern finds one of them is
  returned unchanged by \<^verbatim>\<open>resolveSync\<close> and by \<^verbatim>\<open>resolve\<close>, without a call of the host,
  and resolving the result again gives the same value.  A specifier in which the pattern
  finds none of them and that is not a builtin name is given to the host's resolver: the
  trace starts with the resolver's call for the specifier itself.
\<close>

theorem resolve_protocol_unchanged:
  "(test PROTOCOL_RE id' \<longrightarrow>
      resolveSync H id' opts = ([], Inr id') \<and> resolve H id' opts = ([], Inr id') \<and>
      bind_io (resolve H id' opts) (\<lambda>v. resolve H v opts) = ([], Inr id')) \<and>
   (\<not> test PROTOCOL_RE id' \<and> id' \<notin> set (builtinModules H) \<longrightarrow>
      (\<exists>t. fst (resolveSync H id' opts) =
         ModuleResolve id' (from_of H opts) (conditions_of opts) # t) \<and>
      fst (resolve H id' opts) = fst (resolveSync H id' opts))"
proof -
  have 1: "resolveSync H id' opts = ([], Inr id') \<and> resolve H id' opts = ([], Inr id') \<and>
      bind_io (resolve H id' opts) (\<lambda>v. resolve H v opts) = ([], Inr id')"
    if "test PROTOCOL_RE id'"
    using that by (simp add: resolveSync_def resolve_def u_resolve_def ret_def)
  have 2: "\<exists>t. fst (resolveSync H id' opts) =
      ModuleResolve id' (from_of H opts) (conditions_of opts) # t"
    if "\<not> test PROTOCOL_RE id'" and "id' \<notin> set (builtinModules H)"
    by (simp add: resolveSync_def u_resolve_first_hit [OF that] fst_bind_io
        u_tryModuleResolve_def)
  have 3: "fst (resolve H id' opts) = fst (resolveSync H id' opts)"
    by (simp add: resolve_def)
  from 1 2 3 show ?thesis by blast
qed

text \<open>
  The theorem at an \<^verbatim>\<open>https:\<close> specifier and at a \<^verbatim>\<open>file:\<close> specifier.
\<close>

theorem resolve_protocol_unchanged_witness:
  "test PROTOCOL_RE ''https://example.com/mod.mjs'' \<and>
   resolveSync empty_host ''https://example.com/mod.mjs'' no_options =
     ([], Inr ''https://example.com/mod.mjs'') \<and>
   resolve empty_host ''https://example.com/mod.mjs'' no_options =
     ([], Inr ''https://example.com/mod.mjs'') \<and>
   \<not> test PROTOCOL_RE ''file:///gone.mjs'' \<and>
   ''file:///gone.mjs'' \<notin> set (builtinModules empty_host) \<and>
   (\<exists>t. fst (resolveSync empty_host ''file:///gone.mjs'' no_options) =
      ModuleResolve ''file:///gone.mjs'' ''file:///work'' [''node'', ''import''] # t)"
proof -
  have h: "test PROTOCOL_RE ''https://example.com/mod.mjs''"
    by (simp add: regex_eval)
  have n: "\<not> test PROTOCOL_RE ''file:///gone.mjs''"
    by (simp add: regex_eval)
  have b: "''file:///gone.mjs'' \<notin> set (builtinModules empty_host)"
    by (simp add: empty_host_def fs_host_def)
  have f: "from_of empty_host no_options = ''file:///work''"
    and c: "conditions_of no_options = [''node'', ''import'']"
    by (simp_all add: host_eval resolve_eval empty_host_def)
  from resolve_protocol_unchanged [of "''https://example.com/mod.mjs''" empty_host no_options]
    resolve_protocol_unchanged [of "''file:///gone.mjs''" empty_host no_options] h n b
  show ?thesis
    by (simp add: f c)
qed

text \<open>
  Claim C1 as it was stated fails for the file scheme: \<^verbatim>\<open>file:\<close> is not among the protocols
  of \<^verbatim>\<open>_resolve\<close> (only \<^verbatim>\<open>normalizeid\<close> knows it).  The two \<^verbatim>\<open>file:\<close> specifiers here go to
  the host's resolver: the one that names a symbolic link comes back as the URL of the
  link's target, and the one that names no file fails with \<^verbatim>\<open>ERR_MODULE_NOT_FOUND\<close>.
\<close>

theorem resolve_file_scheme_counterexample:
  "startsWith ''file:///app/link.mjs'' ''file:'' \<and>
   resolveSync link_host ''file:///app/link.mjs'' no_options =
     ([ModuleResolve ''file:///app/link.mjs'' ''file:///work'' [''node'', ''import''],
       Realpath ''/app/link.mjs''],
      Inr ''file:///app/real.mjs'') \<and>
   resolveSync link_host ''file:///app/link.mjs'' no_options \<noteq>
     ([], Inr ''file:///app/link.mjs'') \<and>
   startsWith ''file:///gone.mjs'' ''file:'' \<and>
   snd (resolveSync empty_host ''file:///gone.mjs'' no_options) =
     Inl \<lparr>err_name = ''Error'',
          err_message = ''Cannot find module file:///gone.mjs imported from file:///work'',
          err_code = Some ''ERR_MODULE_NOT_FOUND'', own_toString = None\<rparr>"
  by (simp add: regex_eval host_eval resolve_eval link_host_def empty_host_def)

text \<open>
  Claim C9, as amended.  For a builtin module name \<open>b\<close>, \<^verbatim>\<open>resolveSync\<close> and \<^verbatim>\<open>resolve\<close>
  make no call of the host (no resolver call, no real-path call, no read) and return
  \<^verbatim>\<open>node:\<close> followed by \<open>b\<close>, unless the protocol pattern already finds a protocol in
  \<open>b\<close>: then \<open>b\<close> itself is returned, since the protocol test comes first.
\<close>

theorem resolve_builtin:
  assumes "b \<in> set (builtinModules H)"
  shows "resolveSync H b opts = ([], Inr (if test PROTOCOL_RE b then b else ''node:'' @ b)) \<and>
    resolve H b opts = ([], Inr (if test PROTOCOL_RE b then b else ''node:'' @ b))"
  using assms by (simp add: resolveSync_def resolve_def u_resolve_def ret_def)

text \<open>
  The theorem at the builtin \<^verbatim>\<open>fs\<close>.
\<close>

theorem resolve_builtin_witness:
  "''fs'' \<in> set (builtinModules prefixed_builtin_host) \<and>
   resolveSync prefixed_builtin_host ''fs'' no_options = ([], Inr ''node:fs'') \<and>
   resolve prefixed_builtin_host ''fs'' no_options = ([], Inr ''node:fs'')"
proof -
  have h: "''fs'' \<in> set (builtinModules prefixed_builtin_host)"
    by (simp add: prefixed_builtin_host_def fs_host_def)
  have p: "\<not> test PROTOCOL_RE ''fs''"
    by (simp add: regex_eval)
  from resolve_builtin [OF h, of no_options] h p show ?thesis
    by simp
qed

text \<open>
  Claim C9 as it was stated fails for a builtin whose name carries the prefix already
  (the host lists \<^verbatim>\<open>node:test\<close> among its builtin modules): the result is the name, not the
  name with a second prefix.
\<close>

theorem resolve_builtin_counterexample:
  "''node:test'' \<in> set (builtinModules prefixed_builtin_host) \<and>
   resolveSync prefixed_builtin_host ''node:test'' no_options = ([], Inr ''node:test'') \<and>
   resolve prefixed_builtin_host ''node:test'' no_options = ([], Inr ''node:test'') \<and>
   ''node:test'' \<noteq> ''node:'' @ ''node:test''"
  by (simp add: regex_eval host_eval resolve_eval prefixed_builtin_host_def)

text \<open>
  Claim C4.  When the literal specifier is a soft miss, the candidates are tried in the
  order of the list: the specifier with each extension, in the configured order, then the
  specifier with \<^verbatim>\<open>/index\<close> and each extension.  If the candidates before \<open>c\<close> are soft
  misses and \<open>c\<close> resolves to \<open>u\<close>, the host's resolver is called for the literal
  specifier, the candidates before \<open>c\<close> and \<open>c\<close>, and for nothing after \<open>c\<close>; the result is
  the real URL of \<open>u\<close>.  The extensions are those of the option
  \<^verbatim>\<open>extensions\<close>, in its order, when it is given, and
  \<^verbatim>\<open>.mjs\<close>, \<^verbatim>\<open>.cjs\<close>, \<^verbatim>\<open>.js\<close>, \<^verbatim>\<open>.json\<close> when it is not.
\<close>

theorem resolve_fallback_order:
  assumes "\<not> test PROTOCOL_RE id'" and "id' \<notin> set (builtinModules H)"
    and "soft_miss H id' (from_of H opts) (conditions_of opts)"
    and "candidates id' (extensions_of opts) = pre @ c # post"
    and "\<forall>x \<in> set pre. soft_miss H x (from_of H opts) (conditions_of opts)"
    and "moduleResolve H c (from_of H opts) (conditions_of opts) = Inr u"
  shows "resolveSync H id' opts =
      (map (\<lambda>x. ModuleResolve x (from_of H opts) (conditions_of opts)) (id' # pre @ [c])
         @ fst (real_url H u),
       snd (real_url H u)) \<and>
    resolve H id' opts =
      u_pcall
        (map (\<lambda>x. ModuleResolve x (from_of H opts) (conditions_of opts)) (id' # pre @ [c])
           @ fst (real_url H u),
         snd (real_url H u)) \<and>
    candidates id' (extensions_of opts) =
      map (\<lambda>ext. id' @ ext) (extensions_of opts) @
      map (\<lambda>ext. id' @ ''/index'' @ ext) (extensions_of opts) \<and>
    extensions_of (opts\<lparr>opt_extensions := None\<rparr>) = [''.mjs'', ''.cjs'', ''.js'', ''.json''] \<and>
    (opt_extensions opts = Some es \<longrightarrow> extensions_of opts = es) \<and>
    (opt_extensions opts = None \<longrightarrow>
       extensions_of opts = [''.mjs'', ''.cjs'', ''.js'', ''.json''])"
proof -
  have all: "\<forall>x \<in> set (id' # pre). soft_miss H x (from_of H opts) (conditions_of opts)"
    using assms(3,5) by simp
  have "first_hit H (from_of H opts) (conditions_of opts) ((id' # pre) @ c # post) =
      (map (\<lambda>x. ModuleResolve x (from_of H opts) (conditions_of opts)) ((id' # pre) @ [c]),
       Inr (Some u))"
    by (rule first_hit_hit [OF all assms(6)])
  then have "u_resolve H id' opts =
      (map (\<lambda>x. ModuleResolve x (from_of H opts) (conditions_of opts)) (id' # pre @ [c])
         @ fst (real_url H u),
       snd (real_url H u))"
    using assms(4) by (simp add: u_resolve_first_hit [OF assms(1,2)])
  then show ?thesis
    by (simp add: resolve_def resolveSync_def candidates_def extensions_of_def
        DEFAULT_EXTENSIONS_def)
qed

text \<open>
  The theorem at a directory \<^verbatim>\<open>./a\<close> that holds \<^verbatim>\<open>index.js\<close> and \<^verbatim>\<open>index.json\<close>, with the
  default extensions: eight calls of the resolver, the last for \<^verbatim>\<open>./a/index.js\<close>.  And
  with the extensions \<^verbatim>\<open>.ts\<close>, \<^verbatim>\<open>.js\<close> configured, at a host that has \<^verbatim>\<open>./a.js\<close> and
  \<^verbatim>\<open>./a/index.ts\<close>: the configured extensions are tried in their order, and \<^verbatim>\<open>./a.js\<close> is
  the hit, before any candidate with \<^verbatim>\<open>/index\<close>.
\<close>

theorem resolve_fallback_order_witness:
  "resolveSync index_host ''./a'' no_options =
     ([ModuleResolve ''./a'' ''file:///work'' [''node'', ''import''],
       ModuleResolve ''./a.mjs'' ''file:///work'' [''node'', ''import''],
       ModuleResolve ''./a.cjs'' ''file:///work'' [''node'', ''import''],
       ModuleResolve ''./a.js'' ''file:///work'' [''node'', ''import''],
       ModuleResolve ''./a.json'' ''file:///work'' [''node'', ''import''],
       ModuleResolve ''./a/index.mjs'' ''file:///work'' [''node'', ''import''],
       ModuleResolve ''./a/index.cjs'' ''file:///work'' [''node'', ''import''],
       ModuleResolve ''./a/index.js'' ''file:///work'' [''node'', ''import''],
       Realpath ''/work/a/index.js''],
      Inr ''file:///work/a/index.js'') \<and>
   candidates ''./a'' (extensions_of ts_options) =
     [''./a.ts'', ''./a.js'', ''./a/index.ts'', ''./a/index.js''] \<and>
   resolveSync ts_host ''./a'' ts_options =
     ([ModuleResolve ''./a'' ''file:///work'' [''node'', ''import''],
       ModuleResolve ''./a.ts'' ''file:///work'' [''node'', ''import''],
       ModuleResolve ''./a.js'' ''file:///work'' [''node'', ''import''],
       Realpath ''/work/a.js''],
      Inr ''file:///work/a.js'')"
proof -
  have f: "from_of index_host no_options = ''file:///work''"
    and c: "conditions_of no_options = [''node'', ''import'']"
    and e: "extensions_of no_options = [''.mjs'', ''.cjs'', ''.js'', ''.json'']"
    by (simp_all add: host_eval resolve_eval index_host_def)
  have h1: "\<not> test PROTOCOL_RE ''./a''"
    by (simp add: regex_eval)
  have h2: "''./a'' \<notin> set (builtinModules index_host)"
    by (simp add: index_host_def fs_host_def)
  have h3: "soft_miss index_host ''./a'' (from_of index_host no_options) (conditions_of no_options)"
    unfolding f c by (simp add: soft_miss_def index_host_def host_eval NOT_FOUND_ERRORS_def)
  have h4: "candidates ''./a'' (extensions_of no_options) =
      [''./a.mjs'', ''./a.cjs'', ''./a.js'', ''./a.json'', ''./a/index.mjs'', ''./a/index.cjs'']
        @ ''./a/index.js'' # [''./a/index.json'']"
    unfolding e by (simp add: candidates_def)
  have h5: "\<forall>x \<in> set [''./a.mjs'', ''./a.cjs'', ''./a.js'', ''./a.json'', ''./a/index.mjs'',
        ''./a/index.cjs''].
      soft_miss index_host x (from_of index_host no_options) (conditions_of no_options)"
    unfolding f c by (simp add: soft_miss_def index_host_def host_eval NOT_FOUND_ERRORS_def)
  have h6: "moduleResolve index_host ''./a/index.js'' (from_of index_host no_options)
      (conditions_of no_options) = Inr ''file:///work/a/index.js''"
    unfolding f c by (simp add: index_host_def host_eval)
  have r: "real_url index_host ''file:///work/a/index.js'' =
      ([Realpath ''/work/a/index.js''], Inr ''file:///work/a/index.js'')"
    by (simp add: index_host_def host_eval resolve_eval)
  have 1: "resolveSync index_host ''./a'' no_options =
     ([ModuleResolve ''./a'' ''file:///work'' [''node'', ''import''],
       ModuleResolve ''./a.mjs'' ''file:///work'' [''node'', ''import''],
       ModuleResolve ''./a.cjs'' ''file:///work'' [''node'', ''import''],
       ModuleResolve ''./a.js'' ''file:///work'' [''node'', ''import''],
       ModuleResolve ''./a.json'' ''file:///work'' [''node'', ''import''],
       ModuleResolve ''./a/index.mjs'' ''file:///work'' [''node'', ''import''],
       ModuleResolve ''./a/index.cjs'' ''file:///work'' [''node'', ''import''],
       ModuleResolve ''./a/index.js'' ''file:///work'' [''node'', ''import''],
       Realpath ''/work/a/index.js''],
      Inr ''file:///work/a/index.js'')"
    using resolve_fallback_order [OF h1 h2 h3 h4 h5 h6] unfolding f c r by simp
  have tf: "from_of ts_host ts_options = ''file:///work''"
    and tc: "conditions_of ts_options = [''node'', ''import'']"
    by (simp_all add: host_eval resolve_eval ts_host_def ts_options_def)
  have t0: "opt_extensions ts_options = Some [''.ts'', ''.js'']"
    by (simp add: ts_options_def no_options_def)
  have t2: "''./a'' \<notin> set (builtinModules ts_host)"
    by (simp add: ts_host_def fs_host_def)
  have t3: "soft_miss ts_host ''./a'' (from_of ts_host ts_options) (conditions_of ts_options)"
    unfolding tf tc by (simp add: soft_miss_def ts_host_def host_eval NOT_FOUND_ERRORS_def)
  have t5: "\<forall>x \<in> set [''./a.ts''].
      soft_miss ts_host x (from_of ts_host ts_options) (conditions_of ts_options)"
    unfolding tf tc by (simp add: soft_miss_def ts_host_def host_eval NOT_FOUND_ERRORS_def)
  have t6: "moduleResolve ts_host ''./a.js'' (from_of ts_host ts_options)
      (conditions_of ts_options) = Inr ''file:///work/a.js''"
    unfolding tf tc by (simp add: ts_host_def host_eval)
  have tr: "real_url ts_host ''file:///work/a.js'' =
      ([Realpath ''/work/a.js''], Inr ''file:///work/a.js'')"
    by (simp add: ts_host_def host_eval resolve_eval)
  have t4: "candidates ''./a'' (extensions_of ts_options) =
      [''./a.ts''] @ ''./a.js'' # [''./a/index.ts'', ''./a/index.js'']"
    using t0 by (simp add: extensions_of_def candidates_def)
  have 2: "resolveSync ts_host ''./a'' ts_options =
     ([ModuleResolve ''./a'' ''file:///work'' [''node'', ''import''],
       ModuleResolve ''./a.ts'' ''file:///work'' [''node'', ''import''],
       ModuleResolve ''./a.js'' ''file:///work'' [''node'', ''import''],
       Realpath ''/work/a.js''],
      Inr ''file:///work/a.js'')"
    using resolve_fallback_order [OF h1 t2 t3 t4 t5 t6] unfolding tf tc tr by simp
  from 1 2 t4 show ?thesis by simp
qed

text \<open>
  Claim C5, as amended.  \<^verbatim>\<open>_tryModuleResolve\<close> turns a failure of the host's resolver into
  "no result" exactly when its code is \<^verbatim>\<open>ERR_MODULE_NOT_FOUND\<close>,
  \<^verbatim>\<open>ERR_UNSUPPORTED_DIR_IMPORT\<close> or \<^verbatim>\<open>MODULE_NOT_FOUND\<close>, and the resolver goes on to the
  next candidate.  A failure \<open>e\<close> with another code (or none) at the literal specifier or at
  a candidate ends the resolution at once: no later candidate is tried.  The synchronous
  operations \<^verbatim>\<open>resolveSync\<close> and \<^verbatim>\<open>resolvePathSync\<close> throw \<open>e\<close> itself; the asynchronous
  \<^verbatim>\<open>resolve\<close> and \<^verbatim>\<open>resolvePath\<close> reject with a new error, of the name \<^verbatim>\<open>Error\<close>, that has
  the code of \<open>e\<close>.
\<close>

theorem soft_misses_absorbed_others_propagate:
  assumes "\<not> test PROTOCOL_RE id'" and "id' \<notin> set (builtinModules H)"
    and "id' # candidates id' (extensions_of opts) = pre @ c # post"
    and "\<forall>x \<in> set pre. soft_miss H x (from_of H opts) (conditions_of opts)"
    and "moduleResolve H c (from_of H opts) (conditions_of opts) = Inl e"
    and "err_code e \<notin> {Some ''ERR_MODULE_NOT_FOUND'', Some ''ERR_UNSUPPORTED_DIR_IMPORT'',
           Some ''MODULE_NOT_FOUND''}"
  shows "resolveSync H id' opts =
      (map (\<lambda>x. ModuleResolve x (from_of H opts) (conditions_of opts)) (pre @ [c]), Inl e) \<and>
    resolvePathSync H id' opts =
      (map (\<lambda>x. ModuleResolve x (from_of H opts) (conditions_of opts)) (pre @ [c]), Inl e) \<and>
    fst (resolve H id' opts) =
      map (\<lambda>x. ModuleResolve x (from_of H opts) (conditions_of opts)) (pre @ [c]) \<and>
    (\<exists>e'. snd (resolve H id' opts) = Inl e' \<and> err_code e' = err_code e \<and>
       err_name e' = ''Error'') \<and>
    fst (resolvePath H id' opts) =
      map (\<lambda>x. ModuleResolve x (from_of H opts) (conditions_of opts)) (pre @ [c]) \<and>
    (\<exists>e'. snd (resolvePath H id' opts) = Inl e' \<and> err_code e' = err_code e \<and>
       err_name e' = ''Error'') \<and>
    (snd (u_tryModuleResolve H x from conditions) = Inr None \<longleftrightarrow>
       (\<exists>e'. moduleResolve H x from conditions = Inl e' \<and>
          err_code e' \<in> {Some ''ERR_MODULE_NOT_FOUND'', Some ''ERR_UNSUPPORTED_DIR_IMPORT'',
            Some ''MODULE_NOT_FOUND''})) \<and>
    (soft_miss H x from conditions \<longleftrightarrow> snd (u_tryModuleResolve H x from conditions) = Inr None)"
proof -
  let ?t = "map (\<lambda>x. ModuleResolve x (from_of H opts) (conditions_of opts)) (pre @ [c])"
  have code_iff: "has_code NOT_FOUND_ERRORS k \<longleftrightarrow>
      k \<in> {Some ''ERR_MODULE_NOT_FOUND'', Some ''ERR_UNSUPPORTED_DIR_IMPORT'',
        Some ''MODULE_NOT_FOUND''}" for k
    by (cases k) (auto simp: NOT_FOUND_ERRORS_def)
  have hard: "\<not> has_code NOT_FOUND_ERRORS (err_code e)"
    using assms(6) by (simp only: code_iff not_False_eq_True)
  have "first_hit H (from_of H opts) (conditions_of opts) (pre @ c # post) = (?t, Inl e)"
    by (rule first_hit_hard [OF assms(4,5) hard])
  then have 1: "resolveSync H id' opts = (?t, Inl e)"
    using assms(3) by (simp add: resolveSync_def u_resolve_first_hit [OF assms(1,2)])
  have ps: "resolvePathSync H id' opts = (?t, Inl e)"
    by (simp add: resolvePathSync_def 1)
  have ra: "resolve H id' opts = (?t, Inl (u_perr e))"
    by (simp add: resolve_def 1)
  have rp: "resolvePath H id' opts = (?t, Inl (u_perr e))"
    by (simp add: resolvePath_def ps)
  have pe: "err_code (u_perr e) = err_code e \<and> err_name (u_perr e) = ''Error''"
    by (simp add: u_perr_def)
  have 2: "snd (u_tryModuleResolve H x from conditions) = Inr None \<longleftrightarrow>
       (\<exists>e'. moduleResolve H x from conditions = Inl e' \<and>
          err_code e' \<in> {Some ''ERR_MODULE_NOT_FOUND'', Some ''ERR_UNSUPPORTED_DIR_IMPORT'',
            Some ''MODULE_NOT_FOUND''})"
    unfolding code_iff [symmetric]
    by (cases "moduleResolve H x from conditions") (simp_all add: u_tryModuleResolve_def)
  have 3: "soft_miss H x from conditions \<longleftrightarrow>
      snd (u_tryModuleResolve H x from conditions) = Inr None"
    by (cases "moduleResolve H x from conditions") (simp_all add: soft_miss_def u_tryModuleResolve_def)
  from 1 ps ra rp pe 2 3 show ?thesis by simp
qed

text \<open>
  The theorem at a package whose first candidate fails with
  \<^verbatim>\<open>ERR_PACKAGE_PATH_NOT_EXPORTED\<close>.
\<close>

theorem soft_misses_absorbed_others_propagate_witness:
  "resolveSync failing_host ''./pkg'' no_options =
     ([ModuleResolve ''./pkg'' ''file:///work'' [''node'', ''import''],
       ModuleResolve ''./pkg.mjs'' ''file:///work'' [''node'', ''import'']],
      Inl export_error) \<and>
   fst (resolve failing_host ''./pkg'' no_options) =
     [ModuleResolve ''./pkg'' ''file:///work'' [''node'', ''import''],
      ModuleResolve ''./pkg.mjs'' ''file:///work'' [''node'', ''import'']] \<and>
   (\<exists>e'. snd (resolve failing_host ''./pkg'' no_options) = Inl e' \<and>
      err_code e' = Some ''ERR_PACKAGE_PATH_NOT_EXPORTED'' \<and> err_name e' = ''Error'')"
proof -
  have f: "from_of failing_host no_options = ''file:///work''"
    and c: "conditions_of no_options = [''node'', ''import'']"
    and e: "extensions_of no_options = [''.mjs'', ''.cjs'', ''.js'', ''.json'']"
    by (simp_all add: host_eval resolve_eval failing_host_def)
  have h1: "\<not> test PROTOCOL_RE ''./pkg''"
    by (simp add: regex_eval)
  have h2: "''./pkg'' \<notin> set (builtinModules failing_host)"
    by (simp add: failing_host_def fs_host_def)
  have h3: "''./pkg'' # candidates ''./pkg'' (extensions_of no_options) =
      [''./pkg''] @ ''./pkg.mjs'' #
      [''./pkg.cjs'', ''./pkg.js'', ''./pkg.json'', ''./pkg/index.mjs'', ''./pkg/index.cjs'',
       ''./pkg/index.js'', ''./pkg/index.json'']"
    unfolding e by (simp add: candidates_def)
  have h4: "\<forall>x \<in> set [''./pkg''].
      soft_miss failing_host x (from_of failing_host no_options) (conditions_of no_options)"
    unfolding f c by (simp add: soft_miss_def failing_host_def host_eval NOT_FOUND_ERRORS_def)
  have h5: "moduleResolve failing_host ''./pkg.mjs'' (from_of failing_host no_options)
      (conditions_of no_options) = Inl export_error"
    unfolding f c by (simp add: failing_host_def host_eval)
  have h6: "err_code export_error \<notin> {Some ''ERR_MODULE_NOT_FOUND'',
      Some ''ERR_UNSUPPORTED_DIR_IMPORT'', Some ''MODULE_NOT_FOUND''}"
    by (simp add: export_error_def)
  have k: "err_code export_error = Some ''ERR_PACKAGE_PATH_NOT_EXPORTED''"
    by (simp add: export_error_def)
  from soft_misses_absorbed_others_propagate [OF h1 h2 h3 h4 h5 h6] show ?thesis
    unfolding f c k by simp
qed

text \<open>
  Claim C5 as it was stated fails for the asynchronous operations: the error the host's
  resolver throws for the first candidate reaches the caller of \<^verbatim>\<open>resolveSync\<close> as it is,
  but \<^verbatim>\<open>resolve\<close> rejects with another error, built by \<^verbatim>\<open>_perr\<close>.
\<close>

theorem host_error_rewrapped_counterexample:
  "moduleResolve failing_host ''./pkg.mjs'' ''file:///work'' [''node'', ''import''] =
     Inl export_error \<and>
   snd (resolveSync failing_host ''./pkg'' no_options) = Inl export_error \<and>
   snd (resolve failing_host ''./pkg'' no_options) \<noteq> Inl export_error \<and>
   snd (resolvePath failing_host ''./pkg'' no_options) \<noteq> Inl export_error"
  by (simp add: regex_eval host_eval resolve_eval failing_host_def export_error_def
      resolvePath_def resolvePathSync_def)

text \<open>
  Claim C6.  When the literal specifier and every candidate are soft misses,
  \<^verbatim>\<open>resolveSync\<close> throws an error with the code \<^verbatim>\<open>ERR_MODULE_NOT_FOUND\<close> whose message is
  "Cannot find module", the specifier, "imported from" and the base that was given to the
  host's resolver; \<^verbatim>\<open>resolve\<close> rejects with the same code and the same message after
  the word "Error:".
\<close>

theorem resolve_not_found:
  assumes "\<not> test PROTOCOL_RE id'" and "id' \<notin> set (builtinModules H)"
    and "\<forall>x \<in> set (id' # candidates id' (extensions_of opts)).
           soft_miss H x (from_of H opts) (conditions_of opts)"
  shows "resolveSync H id' opts =
      (map (\<lambda>x. ModuleResolve x (from_of H opts) (conditions_of opts))
         (id' # candidates id' (extensions_of opts)),
       Inl \<lparr>err_name = ''Error'',
            err_message = ''Cannot find module '' @ id' @ '' imported from '' @ from_of H opts,
            err_code = Some ''ERR_MODULE_NOT_FOUND'', own_toString = None\<rparr>) \<and>
    resolve H id' opts =
      (map (\<lambda>x. ModuleResolve x (from_of H opts) (conditions_of opts))
         (id' # candidates id' (extensions_of opts)),
       Inl \<lparr>err_name = ''Error'',
            err_message =
              ''Error: Cannot find module '' @ id' @ '' imported from '' @ from_of H opts,
            err_code = Some ''ERR_MODULE_NOT_FOUND'', own_toString = None\<rparr>)"
proof -
  have "first_hit H (from_of H opts) (conditions_of opts)
      (id' # candidates id' (extensions_of opts)) =
      (map (\<lambda>x. ModuleResolve x (from_of H opts) (conditions_of opts))
         (id' # candidates id' (extensions_of opts)), Inr None)"
    by (rule first_hit_all_soft [OF assms(3)])
  then have 1: "resolveSync H id' opts =
      (map (\<lambda>x. ModuleResolve x (from_of H opts) (conditions_of opts))
         (id' # candidates id' (extensions_of opts)),
       Inl (not_found id' (from_of H opts)))"
    by (simp add: resolveSync_def u_resolve_first_hit [OF assms(1,2)] throw_def)
  show ?thesis
    unfolding resolve_def 1 by (simp add: not_found_def u_perr_def toString_def)
qed

text \<open>
  The theorem at a specifier no file answers to, with the option \<^verbatim>\<open>from\<close> given as a path.
\<close>

theorem resolve_not_found_witness:
  "resolveSync empty_host ''./nope'' from_main =
     (map (\<lambda>x. ModuleResolve x ''file:///srv/app/main.mjs'' [''node'', ''import''])
        [''./nope'', ''./nope.mjs'', ''./nope.cjs'', ''./nope.js'', ''./nope.json'',
         ''./nope/index.mjs'', ''./nope/index.cjs'', ''./nope/index.js'', ''./nope/index.json''],
      Inl \<lparr>err_name = ''Error'',
           err_message = ''Cannot find module ./nope imported from file:///srv/app/main.mjs'',
           err_code = Some ''ERR_MODULE_NOT_FOUND'', own_toString = None\<rparr>) \<and>
   snd (resolve empty_host ''./nope'' from_main) =
      Inl \<lparr>err_name = ''Error'',
           err_message = ''Error: Cannot find module ./nope imported from file:///srv/app/main.mjs'',
           err_code = Some ''ERR_MODULE_NOT_FOUND'', own_toString = None\<rparr>"
proof -
  have f: "from_of empty_host from_main = ''file:///srv/app/main.mjs''"
    and c: "conditions_of from_main = [''node'', ''import'']"
    and e: "extensions_of from_main = [''.mjs'', ''.cjs'', ''.js'', ''.json'']"
    by (simp_all add: host_eval resolve_eval regex_eval empty_host_def from_main_def)
  have h1: "\<not> test PROTOCOL_RE ''./nope''"
    by (simp add: regex_eval)
  have h2: "''./nope'' \<notin> set (builtinModules empty_host)"
    by (simp add: empty_host_def fs_host_def)
  have h3: "\<forall>x \<in> set (''./nope'' # candidates ''./nope'' (extensions_of from_main)).
      soft_miss empty_host x (from_of empty_host from_main) (conditions_of from_main)"
    unfolding f c e by (simp add: soft_miss_def empty_host_def host_eval NOT_FOUND_ERRORS_def)
  from resolve_not_found [OF h1 h2 h3] show ?thesis
    unfolding f c e by (simp add: candidates_def)
qed

section \<open>Properties of the rewriter\<close>

text \<open>
  Claim C7.  If \<^verbatim>\<open>resolve\<close> fails for one of the distinct imports of a source text, then
  \<^verbatim>\<open>resolveImports\<close> fails with the error of the first import that fails, and so does
  \<^verbatim>\<open>transformModule\<close>.  The result is the error and no text, whatever pattern the
  specifiers would have given: the pattern is not built.
\<close>

theorem failed_resolution_aborts_rewrite:
  assumes "x \<in> set (uniqueImports code)"
    and "isl (snd (resolve H x (resolveOpts opts)))"
  shows "\<exists>pre y post e.
      uniqueImports code = pre @ y # post \<and>
      (\<forall>z \<in> set pre. \<not> isl (snd (resolve H z (resolveOpts opts)))) \<and>
      snd (resolve H y (resolveOpts opts)) = Inl e \<and>
      snd (resolveImports H code opts) = Some (Inl e) \<and>
      (url_from_defaults (s ! r) = opts \<longrightarrow>
         snd (snd (transformModule H code r s)) = Some (Inl e))"
proof -
  let ?P = "\<lambda>z. isl (snd (resolve H z (resolveOpts opts)))"
  let ?f = "\<lambda>id'. bind_io (resolve H id' (resolveOpts opts)) (\<lambda>u. ret (id', u))"
  from assms have "\<exists>z \<in> set (uniqueImports code). ?P z" by blast
  then obtain pre y post where split: "uniqueImports code = pre @ y # post"
    and y: "?P y" and pre: "\<forall>z \<in> set pre. \<not> ?P z"
    using split_list_first_prop [of "uniqueImports code" ?P] by blast
  from y obtain e where e: "snd (resolve H y (resolveOpts opts)) = Inl e"
    by (cases "snd (resolve H y (resolveOpts opts))") auto
  have f_pre: "\<forall>z \<in> set pre. \<not> isl (snd (?f z))"
    using pre by (auto simp: snd_bind_io ret_def split: sum.splits)
  have f_y: "snd (?f y) = Inl e"
    using e by (simp add: snd_bind_io)
  have all: "snd (Promise_all (map ?f (uniqueImports code))) = Inl e"
    unfolding split by (rule Promise_all_first_failure [OF f_pre f_y])
  have ne: "matchAll ESM_IMPORT_RE code \<noteq> []"
    by (rule uniqueImports_nonempty [OF assms(1)])
  have ri: "snd (resolveImports H code opts) = Some (Inl e)"
    using ne all by (simp add: resolveImports_def Let_def)
  have tm: "url_from_defaults (s ! r) = opts \<longrightarrow>
      snd (snd (transformModule H code r s)) = Some (Inl e)"
    using ri by (auto simp: transformModule_def Let_def)
  from split pre e ri tm show ?thesis by blast
qed

text \<open>
  The theorem at two imports, the second of which names no file.
\<close>

theorem failed_resolution_aborts_rewrite_witness:
  "''./a/b'' \<in> set (uniqueImports code_ab) \<and>
   snd (resolve gone_host ''./a'' (resolveOpts main_both)) = Inr ''file:///work/a.mjs'' \<and>
   snd (resolveImports gone_host code_ab main_both) =
     Some (Inl \<lparr>err_name = ''Error'',
       err_message = ''Error: Cannot find module ./a/b imported from file:///work/main.mjs'',
       err_code = Some ''ERR_MODULE_NOT_FOUND'', own_toString = None\<rparr>) \<and>
   snd (snd (transformModule gone_host code_ab 0 [url_main])) =
     Some (Inl \<lparr>err_name = ''Error'',
       err_message = ''Error: Cannot find module ./a/b imported from file:///work/main.mjs'',
       err_code = Some ''ERR_MODULE_NOT_FOUND'', own_toString = None\<rparr>)"
proof -
  have u: "uniqueImports code_ab = [''./a'', ''./a/b'']"
    by (simp add: uniqueImports_def uniq_def code_ab_def nl_def squote_def matchAll_def
        ESM_IMPORT_RE_def regex_eval)
  have ra: "snd (resolve gone_host ''./a'' (resolveOpts main_both)) = Inr ''file:///work/a.mjs''"
    by (simp add: gone_host_def main_both_def url_main_def resolveOpts_def regex_eval host_eval
        resolve_eval)
  have rb: "snd (resolve gone_host ''./a/b'' (resolveOpts main_both)) =
      Inl \<lparr>err_name = ''Error'',
       err_message = ''Error: Cannot find module ./a/b imported from file:///work/main.mjs'',
       err_code = Some ''ERR_MODULE_NOT_FOUND'', own_toString = None\<rparr>"
    by (simp add: gone_host_def main_both_def url_main_def resolveOpts_def regex_eval host_eval
        resolve_eval)
  have h1: "''./a/b'' \<in> set (uniqueImports code_ab)"
    unfolding u by simp
  have h2: "isl (snd (resolve gone_host ''./a/b'' (resolveOpts main_both)))"
    unfolding rb by simp
  have d: "url_from_defaults ([url_main] ! 0) = main_both"
    by (simp add: url_from_defaults_def main_both_def url_main_def no_options_def)
  from failed_resolution_aborts_rewrite [OF h1 h2, of "[url_main]" 0]
  obtain pre y post e where
    s: "uniqueImports code_ab = pre @ y # post"
    and e: "snd (resolve gone_host y (resolveOpts main_both)) = Inl e"
    and ri: "snd (resolveImports gone_host code_ab main_both) = Some (Inl e)"
    and tm: "snd (snd (transformModule gone_host code_ab 0 [url_main])) = Some (Inl e)"
    using d by blast
  from s u have "y \<in> set [''./a'', ''./a/b'']"
    by (metis in_set_conv_decomp)
  with e ra have "y = ''./a/b''"
    by auto
  with e rb have "e = \<lparr>err_name = ''Error'',
       err_message = ''Error: Cannot find module ./a/b imported from file:///work/main.mjs'',
       err_code = Some ''ERR_MODULE_NOT_FOUND'', own_toString = None\<rparr>"
    by simp
  with h1 ra ri tm show ?thesis
    by simp
qed

text \<open>
  Claim C10.  When \<^verbatim>\<open>transformModule\<close> is given both \<^verbatim>\<open>url\<close> and \<^verbatim>\<open>from\<close>, every call of
  the host's resolver has the base made from \<^verbatim>\<open>url\<close>, and the trace and the result are
  the same for any other \<^verbatim>\<open>from\<close>.
\<close>

theorem transformModule_resolves_from_url:
  assumes "r < length s"
    and "opt_url (s ! r) = Some u" and "u \<noteq> []"
    and "opt_from (s ! r) = Some f" and "f \<noteq> []"
    and "f' \<noteq> []"
  shows "set (bases (fst (snd (transformModule H code r s)))) \<subseteq> {normalizeid H u} \<and>
    snd (transformModule H code r (s[r := (s ! r)\<lparr>opt_from := Some f'\<rparr>])) =
      snd (transformModule H code r s)"
proof -
  have d: "url_from_defaults (s ! r) = s ! r"
    using assms by (simp add: url_from_defaults_def)
  have d': "url_from_defaults ((s ! r)\<lparr>opt_from := Some f'\<rparr>) = (s ! r)\<lparr>opt_from := Some f'\<rparr>"
    using assms by (simp add: url_from_defaults_def)
  have fr: "from_of H (resolveOpts (s ! r)) = normalizeid H u"
    using assms by (simp add: from_of_def resolveOpts_def)
  have 1: "set (bases (fst (snd (transformModule H code r s)))) \<subseteq> {normalizeid H u}"
    using bases_resolveImports [of H code "s ! r"]
    by (simp add: transformModule_def Let_def d fr)
  have ro: "resolveOpts ((s ! r)\<lparr>opt_from := Some f'\<rparr>) = resolveOpts (s ! r)"
    by (simp add: resolveOpts_def)
  have rm: "rewrite_meta_url ((s ! r)\<lparr>opt_from := Some f'\<rparr>) = rewrite_meta_url (s ! r)"
    by (rule ext) (simp add: rewrite_meta_url_def)
  have 2: "snd (transformModule H code r (s[r := (s ! r)\<lparr>opt_from := Some f'\<rparr>])) =
      snd (transformModule H code r s)"
    using assms(1)
    by (simp add: transformModule_def Let_def d d' resolveImports_resolveOpts [OF ro] rm)
  from 1 2 show ?thesis ..
qed

text \<open>
  The theorem at two imports, with \<^verbatim>\<open>from\<close> in another directory than \<^verbatim>\<open>url\<close>.
\<close>

theorem transformModule_resolves_from_url_witness:
  "fst (snd (transformModule ab_host code_ab 0 [both_given])) =
     [ModuleResolve ''./a'' ''file:///work/main.mjs'' [''node'', ''import''],
      Realpath ''/work/a.mjs'',
      ModuleResolve ''./a/b'' ''file:///work/main.mjs'' [''node'', ''import''],
      Realpath ''/work/a/b.mjs''] \<and>
   set (bases (fst (snd (transformModule ab_host code_ab 0 [both_given])))) \<subseteq>
     {''file:///work/main.mjs''} \<and>
   snd (transformModule ab_host code_ab 0 [both_given\<lparr>opt_from := Some ''file:///other/y.mjs''\<rparr>]) =
     snd (transformModule ab_host code_ab 0 [both_given])"
proof -
  have t: "fst (snd (transformModule ab_host code_ab 0 [both_given])) =
     [ModuleResolve ''./a'' ''file:///work/main.mjs'' [''node'', ''import''],
      Realpath ''/work/a.mjs'',
      ModuleResolve ''./a/b'' ''file:///work/main.mjs'' [''node'', ''import''],
      Realpath ''/work/a/b.mjs'']"
    by (simp add: transform_eval code_ab_def ab_host_def both_given_def
        regex_eval host_eval resolve_eval)
  have n: "normalizeid ab_host ''file:///work/main.mjs'' = ''file:///work/main.mjs''"
    by (simp add: normalizeid_def regex_eval)
  have h1: "0 < length [both_given]" by simp
  have h2: "opt_url ([both_given] ! 0) = Some ''file:///work/main.mjs''"
    and h4: "opt_from ([both_given] ! 0) = Some ''file:///elsewhere/x.mjs''"
    by (simp_all add: both_given_def no_options_def)
  have h3: "''file:///work/main.mjs'' \<noteq> []" and h5: "''file:///elsewhere/x.mjs'' \<noteq> []"
    and h6: "''file:///other/y.mjs'' \<noteq> []"
    by simp_all
  from transformModule_resolves_from_url [OF h1 h2 h3 h4 h5 h6, of ab_host code_ab] t n
  show ?thesis by simp
qed

text \<open>
  Claim C3, as amended.  \<^verbatim>\<open>resolveSync\<close>, \<^verbatim>\<open>resolve\<close> and \<^verbatim>\<open>resolvePath\<close> leave the store as
  it was.  \<^verbatim>\<open>loadModule\<close> leaves every object of the store, the caller's among them, as it
  was: when the module has been read, it adds one object, its own copy of the options with
  \<^verbatim>\<open>url\<close> set, which \<^verbatim>\<open>evalModule\<close> then works on.  \<^verbatim>\<open>transformModule\<close> and \<^verbatim>\<open>evalModule\<close>
  write into the object the caller passed: given \<^verbatim>\<open>from\<close> and no \<^verbatim>\<open>url\<close>, they set its \<^verbatim>\<open>url\<close>
  to its \<^verbatim>\<open>from\<close>; given \<^verbatim>\<open>url\<close> and no \<^verbatim>\<open>from\<close>, they set its \<^verbatim>\<open>from\<close> to its \<^verbatim>\<open>url\<close>; in
  both cases the store is not the one before the call.  Given both or neither, they leave
  the store as it was.  (An empty text counts as not given.)
\<close>

theorem options_written_by_transform_only:
  assumes "r < length s"
  shows "fst (resolveSync_ref H id' r s) = s \<and>
    fst (resolve_ref H id' r s) = s \<and>
    fst (resolvePath_ref H id' r s) = s \<and>
    take (length s) (fst (loadModule H id' r s)) = s \<and>
    fst (loadModule H id' r s) ! r = s ! r \<and>
    (snd (readModule H id' (s ! r)) = Inr (url, body) \<longrightarrow>
       fst (loadModule H id' r s) =
         s @ [url_from_defaults
           ((s ! r)\<lparr>opt_url := (case opt_url (s ! r) of Some u \<Rightarrow> Some u | None \<Rightarrow> Some url)\<rparr>)]) \<and>
    (\<not> truthy (opt_url (s ! r)) \<and> truthy (opt_from (s ! r)) \<longrightarrow>
       fst (transformModule H code r s) = s[r := (s ! r)\<lparr>opt_url := opt_from (s ! r)\<rparr>] \<and>
       fst (evalModule H code r s) = s[r := (s ! r)\<lparr>opt_url := opt_from (s ! r)\<rparr>] \<and>
       fst (transformModule H code r s) \<noteq> s \<and> fst (evalModule H code r s) \<noteq> s) \<and>
    (truthy (opt_url (s ! r)) \<and> \<not> truthy (opt_from (s ! r)) \<longrightarrow>
       fst (transformModule H code r s) = s[r := (s ! r)\<lparr>opt_from := opt_url (s ! r)\<rparr>] \<and>
       fst (evalModule H code r s) = s[r := (s ! r)\<lparr>opt_from := opt_url (s ! r)\<rparr>] \<and>
       fst (transformModule H code r s) \<noteq> s \<and> fst (evalModule H code r s) \<noteq> s) \<and>
    (truthy (opt_url (s ! r)) = truthy (opt_from (s ! r)) \<longrightarrow>
       fst (transformModule H code r s) = s \<and> fst (evalModule H code r s) = s)"
proof -
  have 0: "fst (resolveSync_ref H id' r s) = s \<and> fst (resolve_ref H id' r s) = s \<and>
      fst (resolvePath_ref H id' r s) = s"
    by (simp add: resolveSync_ref_def resolve_ref_def resolvePath_ref_def)
  have 1: "fst (transformModule H code r s) = s[r := url_from_defaults (s ! r)]" for code r s
    by (simp add: transformModule_def Let_def)
  have 4: "take (length s) (fst (loadModule H id' r s)) = s"
    by (cases "readModule H id' (s ! r)")
      (auto simp: loadModule_def Let_def fst_evalModule 1 split: sum.splits prod.splits)
  have 5: "fst (loadModule H id' r s) ! r = s ! r"
    using assms 4 by (metis nth_take)
  have 6: "fst (loadModule H id' r s) =
         s @ [url_from_defaults
           ((s ! r)\<lparr>opt_url := (case opt_url (s ! r) of Some u \<Rightarrow> Some u | None \<Rightarrow> Some url)\<rparr>)]"
    if "snd (readModule H id' (s ! r)) = Inr (url, body)"
    using that
    by (cases "readModule H id' (s ! r)") (simp add: loadModule_def Let_def fst_evalModule 1)
  have upd: "s[r := x] = s \<longleftrightarrow> x = s ! r" for x
    using assms by (auto simp: list_update_same_conv)
  have 7: "url_from_defaults (s ! r) = (s ! r)\<lparr>opt_url := opt_from (s ! r)\<rparr> \<and>
      (s ! r)\<lparr>opt_url := opt_from (s ! r)\<rparr> \<noteq> s ! r"
    if a: "\<not> truthy (opt_url (s ! r))" "truthy (opt_from (s ! r))"
  proof -
    from a have "opt_url ((s ! r)\<lparr>opt_url := opt_from (s ! r)\<rparr>) \<noteq> opt_url (s ! r)"
      by auto
    then have "(s ! r)\<lparr>opt_url := opt_from (s ! r)\<rparr> \<noteq> s ! r"
      by metis
    with a show ?thesis by (simp add: url_from_defaults_def)
  qed
  have 8: "url_from_defaults (s ! r) = (s ! r)\<lparr>opt_from := opt_url (s ! r)\<rparr> \<and>
      (s ! r)\<lparr>opt_from := opt_url (s ! r)\<rparr> \<noteq> s ! r"
    if a: "truthy (opt_url (s ! r))" "\<not> truthy (opt_from (s ! r))"
  proof -
    from a have "opt_from ((s ! r)\<lparr>opt_from := opt_url (s ! r)\<rparr>) \<noteq> opt_from (s ! r)"
      by auto
    then have "(s ! r)\<lparr>opt_from := opt_url (s ! r)\<rparr> \<noteq> s ! r"
      by metis
    with a show ?thesis by (simp add: url_from_defaults_def)
  qed
  have 9: "url_from_defaults (s ! r) = s ! r"
    if "truthy (opt_url (s ! r)) = truthy (opt_from (s ! r))"
    using that by (auto simp: url_from_defaults_def)
  from 0 4 5 6 7 8 9 show ?thesis
    by (simp add: fst_evalModule 1 upd)
qed

text \<open>
  The theorem at an object with \<^verbatim>\<open>from\<close> alone, at one with \<^verbatim>\<open>url\<close> alone and at one with both,
  and at a \<^verbatim>\<open>loadModule\<close> that reads its module: the caller's object, which has neither
  field, stays, and the object added has both.
\<close>

theorem options_written_by_transform_only_witness:
  "fst (transformModule empty_host code_plain 0 [from_only]) =
     [from_only\<lparr>opt_url := Some ''file:///work/main.mjs''\<rparr>] \<and>
   fst (evalModule empty_host code_plain 0 [url_main]) =
     [url_main\<lparr>opt_from := Some ''file:///work/main.mjs''\<rparr>] \<and>
   fst (transformModule empty_host code_plain 0 [both_given]) = [both_given] \<and>
   fst (evalModule empty_host code_plain 0 [no_options]) = [no_options] \<and>
   fst (resolve_ref empty_host ''./a'' 0 [from_only]) = [from_only] \<and>
   snd (readModule load_host ''./m'' no_options) = Inr (''file:///work/m.mjs'', code_plain) \<and>
   fst (loadModule load_host ''./m'' 0 [no_options]) =
     [no_options,
      no_options\<lparr>opt_from := Some ''file:///work/m.mjs'', opt_url := Some ''file:///work/m.mjs''\<rparr>]"
proof -
  have rm: "snd (readModule load_host ''./m'' ([no_options] ! 0)) =
      Inr (''file:///work/m.mjs'', code_plain)"
    by (simp add: readModule_def load_host_def regex_eval host_eval resolve_eval)
  from options_written_by_transform_only
    [where s = "[from_only]" and r = 0 and H = empty_host and code = code_plain]
  have 1: "fst (transformModule empty_host code_plain 0 [from_only]) =
     [from_only\<lparr>opt_url := Some ''file:///work/main.mjs''\<rparr>]"
    by (simp add: from_only_def no_options_def)
  from options_written_by_transform_only
    [where s = "[url_main]" and r = 0 and H = empty_host and code = code_plain]
  have 2: "fst (evalModule empty_host code_plain 0 [url_main]) =
     [url_main\<lparr>opt_from := Some ''file:///work/main.mjs''\<rparr>]"
    by (simp add: url_main_def no_options_def)
  from options_written_by_transform_only
    [where s = "[both_given]" and r = 0 and H = empty_host and code = code_plain]
  have 3: "fst (transformModule empty_host code_plain 0 [both_given]) = [both_given]"
    by (simp add: both_given_def no_options_def)
  from options_written_by_transform_only
    [where s = "[no_options]" and r = 0 and H = empty_host and code = code_plain]
  have 4: "fst (evalModule empty_host code_plain 0 [no_options]) = [no_options]"
    by (simp add: no_options_def)
  from options_written_by_transform_only
    [where s = "[from_only]" and r = 0 and H = empty_host and id' = "''./a''"]
  have 5: "fst (resolve_ref empty_host ''./a'' 0 [from_only]) = [from_only]"
    by simp
  from options_written_by_transform_only
    [where s = "[no_options]" and r = 0 and H = load_host and id' = "''./m''"
      and url = "''file:///work/m.mjs''" and body = code_plain] rm
  have 6: "fst (loadModule load_host ''./m'' 0 [no_options]) =
     [no_options,
      no_options\<lparr>opt_from := Some ''file:///work/m.mjs'', opt_url := Some ''file:///work/m.mjs''\<rparr>]"
    by (simp add: url_from_defaults_def no_options_def)
  from 1 2 3 4 5 6 rm show ?thesis by simp
qed

text \<open>
  Claim C3 as it was stated fails for \<^verbatim>\<open>transformModule\<close> and \<^verbatim>\<open>evalModule\<close>: called with
  \<^verbatim>\<open>from\<close> alone, they leave the caller's object with \<^verbatim>\<open>url\<close> set.
\<close>

theorem transformModule_writes_options_counterexample:
  "opt_url from_only = None \<and>
   fst (transformModule empty_host code_plain 0 [from_only]) =
     [from_only\<lparr>opt_url := Some ''file:///work/main.mjs''\<rparr>] \<and>
   fst (transformModule empty_host code_plain 0 [from_only]) \<noteq> [from_only] \<and>
   fst (evalModule empty_host code_plain 0 [from_only]) =
     [from_only\<lparr>opt_url := Some ''file:///work/main.mjs''\<rparr>] \<and>
   snd (snd (transformModule empty_host code_plain 0 [from_only])) = Some (Inr code_plain)"
  by (simp add: fst_evalModule transform_eval from_only_def no_options_def code_plain_def
      matchAll_def regex_eval)

text \<open>
  Claim C2.  A source text with the imports \<^verbatim>\<open>./a\<close> and \<^verbatim>\<open>./a/b\<close>: the first is a proper
  part of the second.  The pattern built from the two specifiers finds \<^verbatim>\<open>./a\<close> inside the
  occurrence of \<^verbatim>\<open>./a/b\<close>, so the second import becomes the URL of \<^verbatim>\<open>./a\<close> followed by
  \<^verbatim>\<open>/b\<close>; replacing each specifier where the extraction found it would have given the URL
  of \<^verbatim>\<open>./a/b\<close>.
\<close>

theorem substring_specifier_rewritten_inside:
  "uniqueImports code_ab = [''./a'', ''./a/b''] \<and>
   ''./a/b'' = ''./a'' @ ''/b'' \<and>
   snd (resolve ab_host ''./a'' (resolveOpts url_main)) = Inr ''file:///work/a.mjs'' \<and>
   snd (resolve ab_host ''./a/b'' (resolveOpts url_main)) = Inr ''file:///work/a/b.mjs'' \<and>
   snd (resolveImports ab_host code_ab url_main) =
     Some (Inr (''import a from '' @ squote ''file:///work/a.mjs'' @ nl @
                ''import b from '' @ squote ''file:///work/a.mjs/b'')) \<and>
   rewrite_whole_specifiers
       [(''./a'', ''file:///work/a.mjs''), (''./a/b'', ''file:///work/a/b.mjs'')] code_ab =
     ''import a from '' @ squote ''file:///work/a.mjs'' @ nl @
     ''import b from '' @ squote ''file:///work/a/b.mjs'' \<and>
   snd (resolveImports ab_host code_ab url_main) \<noteq>
     Some (Inr (rewrite_whole_specifiers
       [(''./a'', ''file:///work/a.mjs''), (''./a/b'', ''file:///work/a/b.mjs'')] code_ab))"
  by (simp add: transform_eval rewrite_whole_specifiers_def code_ab_def ab_host_def url_main_def
      regex_eval host_eval resolve_eval)

text \<open>
  Claim C8, at an input where the code does not do what the claim says.  A source text
  that imports the parent directory \<^verbatim>\<open>..\<close> twice: the two imports collapse to one, and
  there is one resolution, but the pattern built from the specifier is two dots, which
  match any two characters of a line.  No pair the search cuts the text into is the
  specifier, so every pair is replaced by the text \<^verbatim>\<open>undefined\<close> and neither import is
  replaced by the resolved URL.
\<close>

theorem duplicate_parent_imports_not_rewritten:
  "matchAll ESM_IMPORT_RE code_dup = [''..'', ''..''] \<and>
   uniqueImports code_dup = [''..''] \<and>
   resolveImports parent_host code_dup url_src_main =
     ([ModuleResolve ''..'' ''file:///work/src/main.mjs'' [''node'', ''import''],
       Realpath ''/work/index.mjs''],
      Some (Inr (concat (replicate 9 ''undefined'') @ nl @ concat (replicate 9 ''undefined''))))"
  by (simp add: transform_eval code_dup_def parent_host_def url_src_main_def
      regex_eval host_eval resolve_eval eval_nat_numeral)

end
